theory Spec2Isabelle
  imports Main "HOL-Library.Char_ord" "HOL-Library.List_Lexorder"
begin

section \<open>Values, columns and tables\<close>

text \<open>
  The data of \<^verbatim>\<open>src/components/data_transformation.py\<close>. A cell of a table is a
  Python string or a number; missing values (\<^verbatim>\<open>NaN\<close>, \<^verbatim>\<open>None\<close>) are outside this type.
  Strings are compared as Python compares them, lexicographically by character code
  (the order of \<^verbatim>\<open>HOL-Library.List_Lexorder\<close> over \<^verbatim>\<open>HOL-Library.Char_ord\<close>).

  A pandas column carries a label, a dtype and its cells; a \<^verbatim>\<open>DataFrame\<close> is the
  list of its columns, and labels may repeat, as pandas allows. A two-dimensional
  \<^verbatim>\<open>numpy.ndarray\<close> has one dtype for all its cells and is kept as the list of its
  columns, so that \<^verbatim>\<open>X.shape[1]\<close> is the length of that list and \<^verbatim>\<open>X[:, i]\<close> its
  \<open>i\<close>-th element. The dtypes are \<^verbatim>\<open>object\<close>, pandas' \<^verbatim>\<open>category\<close>, and the numeric
  ones (every subtype of \<^verbatim>\<open>numpy.number\<close>) taken together; an array is of dtype
  \<^verbatim>\<open>object\<close>, as the imputer of the categorical pipeline returns it, or numeric. The
  other dtypes of numpy that are not numbers (fixed-width strings, booleans, dates), into
  which an assignment would convert the codes, are not part of this model.

  A key of the dictionary \<^verbatim>\<open>self.encoders\<close> is a column label (a string, or an
  integer as in a frame built from an array) or the integer index of an array column;
  Python compares both kinds of integer as the same key.
\<close>

datatype cell = is_Str: Str (the_str: string) | is_Num: Num (the_num: int)

datatype dtype = DObject | DCategory | DNumber

datatype key = Name string | Idx nat

datatype column = Column (label: key) (dtype: dtype) (cells: "cell list")

type_synonym frame = "column list"

datatype table =
    DataFrame (the_frame: frame)
  | NdArray (the_dtype: dtype) (the_cols: "cell list list")

text \<open>
  Modelled from the spec: \<^verbatim>\<open>CustomException\<close>, of the module \<^verbatim>\<open>src.exception\<close> that is not
  among the sources, wraps the exception that was raised, with its context, before it
  goes on to the caller. The other exceptions are those of Python and of the libraries;
  \<^verbatim>\<open>LibraryError\<close> stands for whatever a numeric step of a library may raise.
\<close>

datatype error =
    TypeError | ValueError | KeyError | AttributeError | NotFittedError
  | IOError | LibraryError nat
  | CustomException error

text \<open>\<^verbatim>\<open>X[col]\<close> on a frame: the columns that carry the label. One column is a
  \<^verbatim>\<open>Series\<close>, several are a \<^verbatim>\<open>DataFrame\<close> again.\<close>

definition getitem :: "frame \<Rightarrow> key \<Rightarrow> frame" where
  "getitem X col = filter (\<lambda>c. label c = col) X"

text \<open>\<^verbatim>\<open>X_encoded[col] = codes\<close>: the data of the column is replaced by the integer
  codes, and the column becomes numeric.\<close>

definition setitem :: "frame \<Rightarrow> key \<Rightarrow> cell list \<Rightarrow> frame" where
  "setitem X col codes = map (\<lambda>c. if label c = col then Column col DNumber codes else c) X"

text \<open>\<^verbatim>\<open>np.issubdtype(d, np.number)\<close>.\<close>

fun issubdtype_number :: "dtype \<Rightarrow> bool" where
  "issubdtype_number DNumber = True"
| "issubdtype_number DObject = False"
| "issubdtype_number DCategory = False"

section \<open>scikit-learn's \<^verbatim>\<open>LabelEncoder\<close>\<close>

text \<open>
  The library class the transformer stores per column. \<^verbatim>\<open>fit\<close> keeps
  \<^verbatim>\<open>classes_ = sorted(set(y))\<close>, and raises \<^verbatim>\<open>TypeError\<close> when strings and numbers are
  mixed, since they cannot be sorted together. \<^verbatim>\<open>transform\<close> raises
  \<^verbatim>\<open>NotFittedError\<close> on an encoder without \<^verbatim>\<open>classes_\<close>, \<^verbatim>\<open>ValueError\<close> on a value that is
  not among the classes, and otherwise returns the position of each value in
  \<^verbatim>\<open>classes_\<close>. An encoder is its \<^verbatim>\<open>classes_\<close>, \<open>None\<close> while it is not fitted.
\<close>

type_synonym LabelEncoder = "cell list option"

definition unique :: "cell list \<Rightarrow> error + cell list" where
  "unique y =
     (if list_all is_Str y then Inr (map Str (sort (remdups (map the_str y))))
      else if list_all is_Num y then Inr (map Num (sort (remdups (map the_num y))))
      else Inl TypeError)"

text \<open>\<^verbatim>\<open>column_or_1d\<close>: a \<^verbatim>\<open>Series\<close> is taken as it is, a selection of several columns
  is refused.\<close>

definition column_or_1d :: "frame \<Rightarrow> error + cell list" where
  "column_or_1d sel = (case sel of [c] \<Rightarrow> Inr (cells c) | _ \<Rightarrow> Inl ValueError)"

definition LabelEncoder_fit :: "cell list \<Rightarrow> error + cell list" where
  "LabelEncoder_fit y = unique y"

fun index_of :: "'a list \<Rightarrow> 'a \<Rightarrow> nat" where
  "index_of [] v = 0"
| "index_of (c # cs) v = (if c = v then 0 else Suc (index_of cs v))"

text \<open>The integer code of a value is its position in \<^verbatim>\<open>classes_\<close>.\<close>

definition class_codes :: "cell list \<Rightarrow> cell list \<Rightarrow> cell list" where
  "class_codes classes y = map (\<lambda>v. Num (int (index_of classes v))) y"

definition encode :: "cell list \<Rightarrow> cell list \<Rightarrow> error + cell list" where
  "encode classes y =
     (if list_all (\<lambda>v. v \<in> set classes) y then Inr (class_codes classes y) else Inl ValueError)"

definition LabelEncoder_transform :: "LabelEncoder \<Rightarrow> cell list \<Rightarrow> error + cell list" where
  "LabelEncoder_transform le y =
     (case le of None \<Rightarrow> Inl NotFittedError | Some classes \<Rightarrow> encode classes y)"

text \<open>The same call on a selection \<^verbatim>\<open>X[col]\<close> of a frame: \<^verbatim>\<open>check_is_fitted\<close> comes
  first, then \<^verbatim>\<open>column_or_1d\<close>.\<close>

definition LabelEncoder_transform_sel :: "LabelEncoder \<Rightarrow> frame \<Rightarrow> error + cell list" where
  "LabelEncoder_transform_sel le sel =
     (case le of
        None \<Rightarrow> Inl NotFittedError
      | Some classes \<Rightarrow>
          (case column_or_1d sel of Inl e \<Rightarrow> Inl e | Inr y \<Rightarrow> encode classes y))"

section \<open>\<^verbatim>\<open>LabelEncodingTransformer\<close>\<close>

text \<open>
  The object state: the dictionary \<^verbatim>\<open>self.encoders\<close>, and \<^verbatim>\<open>self.original_columns\<close>,
  an attribute that exists only once \<^verbatim>\<open>fit\<close> has seen an array.
\<close>

record LabelEncodingTransformer =
  encoders :: "key \<rightharpoonup> LabelEncoder"
  original_columns :: "string list option"

definition init :: LabelEncodingTransformer where
  "init = \<lparr>encoders = Map.empty, original_columns = None\<rparr>"

text \<open>Python's \<^verbatim>\<open>str(i)\<close> for the f-string \<^verbatim>\<open>f"col_{i}"\<close>.\<close>

definition digit :: "nat \<Rightarrow> char" where
  "digit n = ''0123456789'' ! n"

fun str_nat :: "nat \<Rightarrow> string" where
  "str_nat n = (if n < 10 then [digit n] else str_nat (n div 10) @ [digit (n mod 10)])"

text \<open>
  The loop of \<^verbatim>\<open>fit\<close> over \<^verbatim>\<open>X.columns\<close>. \<^verbatim>\<open>X[col].dtype\<close> raises \<^verbatim>\<open>AttributeError\<close> when
  the label is not unique, since \<^verbatim>\<open>X[col]\<close> is then a frame. The new
  \<^verbatim>\<open>LabelEncoder()\<close> is stored before it is fitted, so when its \<^verbatim>\<open>fit\<close> raises, an
  unfitted encoder stays in the dictionary. The loop returns the dictionary as it is
  when the loop ends or raises, with the exception if there is one.
\<close>

fun fit_frame ::
  "frame \<Rightarrow> key list \<Rightarrow> (key \<rightharpoonup> LabelEncoder) \<Rightarrow> (key \<rightharpoonup> LabelEncoder) \<times> error option" where
  "fit_frame X [] enc = (enc, None)"
| "fit_frame X (col # cols) enc =
     (case getitem X col of
        [c] \<Rightarrow>
          if dtype c = DObject \<or> dtype c = DCategory
          then (case LabelEncoder_fit (cells c) of
                  Inl e \<Rightarrow> (enc(col \<mapsto> None), Some e)
                | Inr classes \<Rightarrow> fit_frame X cols (enc(col \<mapsto> Some classes)))
          else fit_frame X cols enc
      | _ \<Rightarrow> (enc, Some AttributeError))"

text \<open>The loop of \<^verbatim>\<open>fit\<close> over \<^verbatim>\<open>range(X.shape[1])\<close>, for an array.\<close>

fun fit_array ::
  "dtype \<Rightarrow> cell list list \<Rightarrow> nat list \<Rightarrow> (key \<rightharpoonup> LabelEncoder) \<Rightarrow>
   (key \<rightharpoonup> LabelEncoder) \<times> error option" where
  "fit_array d X [] enc = (enc, None)"
| "fit_array d X (i # is) enc =
     (if \<not> issubdtype_number d
      then (case LabelEncoder_fit (X ! i) of
              Inl e \<Rightarrow> (enc(Idx i \<mapsto> None), Some e)
            | Inr classes \<Rightarrow> fit_array d X is (enc(Idx i \<mapsto> Some classes)))
      else fit_array d X is enc)"

text \<open>\<^verbatim>\<open>fit\<close> returns \<^verbatim>\<open>self\<close>: the state after the call, and the exception raised, if
  any.\<close>

definition fit :: "LabelEncodingTransformer \<Rightarrow> table \<Rightarrow> LabelEncodingTransformer \<times> error option" where
  "fit self X =
     (case X of
        DataFrame df \<Rightarrow>
          (case fit_frame df (map label df) (encoders self) of
             (enc, r) \<Rightarrow> (self\<lparr>encoders := enc\<rparr>, r))
      | NdArray d cols \<Rightarrow>
          (case fit_array d cols [0..<length cols] (encoders self) of
             (enc, r) \<Rightarrow>
               (self\<lparr>encoders := enc,
                     original_columns :=
                       Some (map (\<lambda>i. ''col_'' @ str_nat i) [0..<length cols])\<rparr>, r)))"

text \<open>
  The loops of \<^verbatim>\<open>transform\<close>. \<open>X\<close> is the input, read at every step, and \<open>X_encoded\<close>
  the copy that the assignments change.
\<close>

fun transform_frame ::
  "(key \<rightharpoonup> LabelEncoder) \<Rightarrow> frame \<Rightarrow> key list \<Rightarrow> frame \<Rightarrow> error + frame" where
  "transform_frame enc X [] X_encoded = Inr X_encoded"
| "transform_frame enc X (col # cols) X_encoded =
     (case enc col of
        None \<Rightarrow> transform_frame enc X cols X_encoded
      | Some le \<Rightarrow>
          (case LabelEncoder_transform_sel le (getitem X col) of
             Inl e \<Rightarrow> Inl e
           | Inr codes \<Rightarrow> transform_frame enc X cols (setitem X_encoded col codes)))"

fun transform_array ::
  "(key \<rightharpoonup> LabelEncoder) \<Rightarrow> cell list list \<Rightarrow> nat list \<Rightarrow> cell list list \<Rightarrow>
   error + cell list list" where
  "transform_array enc X [] X_encoded = Inr X_encoded"
| "transform_array enc X (i # is) X_encoded =
     (case enc (Idx i) of
        None \<Rightarrow> transform_array enc X is X_encoded
      | Some le \<Rightarrow>
          (case LabelEncoder_transform le (X ! i) of
             Inl e \<Rightarrow> Inl e
           | Inr codes \<Rightarrow> transform_array enc X is (X_encoded[i := codes])))"

definition transform :: "LabelEncodingTransformer \<Rightarrow> table \<Rightarrow> error + table" where
  "transform self X =
     (case X of
        DataFrame df \<Rightarrow>
          (case transform_frame (encoders self) df (map label df) df of
             Inl e \<Rightarrow> Inl e
           | Inr X_encoded \<Rightarrow> Inr (DataFrame X_encoded))
      | NdArray d cols \<Rightarrow>
          (case transform_array (encoders self) cols [0..<length cols] cols of
             Inl e \<Rightarrow> Inl e
           | Inr X_encoded \<Rightarrow> Inr (NdArray d X_encoded)))"

section \<open>Specification vocabulary\<close>

text \<open>Python's \<^verbatim>\<open><\<close> on cells, where it is defined: two strings or two numbers. A string
  and a number are not ordered.\<close>

fun cell_less :: "cell \<Rightarrow> cell \<Rightarrow> bool" where
  "cell_less (Str a) (Str b) = (a < b)"
| "cell_less (Num a) (Num b) = (a < b)"
| "cell_less (Str a) (Num b) = False"
| "cell_less (Num a) (Str b) = False"

text \<open>\<open>classes\<close> is the sorted list of the distinct values of \<open>y\<close>, and the position
  in it is a bijection from those values onto \<open>0..k-1\<close>.\<close>

definition sorted_codes :: "cell list \<Rightarrow> cell list \<Rightarrow> bool" where
  "sorted_codes classes y \<longleftrightarrow>
     sorted_wrt cell_less classes \<and> set classes = set y \<and>
     bij_betw (index_of classes) (set y) {0..<length classes} \<and>
     (\<forall>i<length classes. index_of classes (classes ! i) = i)"

text \<open>A small table: the categorical column \<^verbatim>\<open>Type\<close> and one numeric column.\<close>

definition example_frame :: frame where
  "example_frame =
     [Column (Name ''Type'') DObject [Str ''M'', Str ''L'', Str ''H'', Str ''L''],
      Column (Name ''Torque Nm'') DNumber [Num 40, Num 42, Num 39, Num 40]]"


text \<open>The transformer after \<^verbatim>\<open>fit\<close> on that table.\<close>

definition example_transformer :: LabelEncodingTransformer where
  "example_transformer =
     \<lparr>encoders = [Name ''Type'' \<mapsto> Some [Str ''H'', Str ''L'', Str ''M'']],
      original_columns = None\<rparr>"

text \<open>The table as \<^verbatim>\<open>transform\<close> returns it for that transformer.\<close>

definition example_encoded :: frame where
  "example_encoded =
     [Column (Name ''Type'') DNumber [Num 2, Num 1, Num 0, Num 1],
      Column (Name ''Torque Nm'') DNumber [Num 40, Num 42, Num 39, Num 40]]"




text \<open>The same data as an array of dtype \<^verbatim>\<open>object\<close>, and the transformer after \<^verbatim>\<open>fit\<close>
  on it: every column of such an array is encoded.\<close>

definition example_array :: table where
  "example_array =
     NdArray DObject
       [[Str ''M'', Str ''L'', Str ''H'', Str ''L''], [Num 40, Num 42, Num 39, Num 40]]"

definition array_transformer :: LabelEncodingTransformer where
  "array_transformer =
     \<lparr>encoders = [Idx 0 \<mapsto> Some [Str ''H'', Str ''L'', Str ''M''],
                  Idx 1 \<mapsto> Some [Num 39, Num 40, Num 42]],
      original_columns = Some [''col_0'', ''col_1'']\<rparr>"

section \<open>\<^verbatim>\<open>transform\<close> on a store of objects\<close>

text \<open>
  Whether \<^verbatim>\<open>transform\<close> changes its argument depends on which object each assignment
  writes to, so the same method is also given over a store: a list of tables in which an
  object reference is a position. \<^verbatim>\<open>X.copy()\<close> allocates a new object at the end of the
  store; each \<^verbatim>\<open>X_encoded[col] = ...\<close> and \<^verbatim>\<open>X_encoded[:, i] = ...\<close> reads the object at
  \<open>x\<close> and writes the object at \<open>r\<close>. The result is the store after the call together
  with the reference returned or the exception raised.
\<close>

type_synonym store = "table list"

fun transform_frame_st ::
  "(key \<rightharpoonup> LabelEncoder) \<Rightarrow> nat \<Rightarrow> nat \<Rightarrow> key list \<Rightarrow> store \<Rightarrow> store \<times> error option" where
  "transform_frame_st enc x r [] h = (h, None)"
| "transform_frame_st enc x r (col # cols) h =
     (case enc col of
        None \<Rightarrow> transform_frame_st enc x r cols h
      | Some le \<Rightarrow>
          (case LabelEncoder_transform_sel le (getitem (the_frame (h ! x)) col) of
             Inl e \<Rightarrow> (h, Some e)
           | Inr codes \<Rightarrow>
               transform_frame_st enc x r cols
                 (h[r := DataFrame (setitem (the_frame (h ! r)) col codes)])))"

fun transform_array_st ::
  "(key \<rightharpoonup> LabelEncoder) \<Rightarrow> nat \<Rightarrow> nat \<Rightarrow> nat list \<Rightarrow> store \<Rightarrow> store \<times> error option" where
  "transform_array_st enc x r [] h = (h, None)"
| "transform_array_st enc x r (i # is) h =
     (case enc (Idx i) of
        None \<Rightarrow> transform_array_st enc x r is h
      | Some le \<Rightarrow>
          (case LabelEncoder_transform le (the_cols (h ! x) ! i) of
             Inl e \<Rightarrow> (h, Some e)
           | Inr codes \<Rightarrow>
               transform_array_st enc x r is
                 (h[r := NdArray (the_dtype (h ! r)) ((the_cols (h ! r))[i := codes])])))"

definition transform_st ::
  "LabelEncodingTransformer \<Rightarrow> nat \<Rightarrow> store \<Rightarrow> store \<times> (error + nat)" where
  "transform_st self x h =
     (let r = length h; h1 = h @ [h ! x] in
      case h ! x of
        DataFrame df \<Rightarrow>
          (case transform_frame_st (encoders self) x r (map label df) h1 of
             (h2, None) \<Rightarrow> (h2, Inr r)
           | (h2, Some e) \<Rightarrow> (h2, Inl e))
      | NdArray d cols \<Rightarrow>
          (case transform_array_st (encoders self) x r [0..<length cols] h1 of
             (h2, None) \<Rightarrow> (h2, Inr r)
           | (h2, Some e) \<Rightarrow> (h2, Inl e)))"

text \<open>The shape of a table: one entry per column, the number of its rows.\<close>

fun shape :: "table \<Rightarrow> nat list" where
  "shape (DataFrame df) = map (\<lambda>c. length (cells c)) df"
| "shape (NdArray d cols) = map length cols"


text \<open>What one pass of the loop of \<^verbatim>\<open>transform\<close> makes of a column of the copy, given
  the input \<open>X\<close>.\<close>

definition transform_column :: "(key \<rightharpoonup> LabelEncoder) \<Rightarrow> frame \<Rightarrow> column \<Rightarrow> column" where
  "transform_column enc X c =
     (case enc (label c) of
        None \<Rightarrow> c
      | Some le \<Rightarrow>
          (case LabelEncoder_transform_sel le (getitem X (label c)) of
             Inl e \<Rightarrow> c
           | Inr cds \<Rightarrow> Column (label c) DNumber cds))"

section \<open>The libraries the driver calls\<close>

text \<open>
  \<^verbatim>\<open>DataTransformation\<close> composes estimators of scikit-learn and imbalanced-learn and
  reads its input with pandas. What those compute on numbers (medians, means, standard
  deviations, nearest neighbours, random draws) is floating-point code of the
  libraries; it is a parameter here. An estimator is its \<^verbatim>\<open>fit\<close>: given the data it
  raises or returns the fitted \<^verbatim>\<open>transform\<close>, which in turn raises or returns a table.
  \<^verbatim>\<open>read_csv\<close> stands for pandas and the files there are. \<^verbatim>\<open>RandomState n\<close> is the
  generator that numpy seeds with \<open>n\<close>, and \<^verbatim>\<open>SMOTETomek_fit_resample\<close> is the
  rebalancer run with a given generator on a feature matrix and a target vector.
\<close>

type_synonym fitted_step = "table \<Rightarrow> error + table"

type_synonym stage = "table \<Rightarrow> error + fitted_step"

record 'r library =
  read_csv :: "string \<Rightarrow> error + frame"
  SimpleImputer_median :: stage
  StandardScaler :: stage
  SimpleImputer_most_frequent :: stage
  StandardScaler_without_mean :: stage
  RandomState :: "nat \<Rightarrow> 'r"
  SMOTETomek_fit_resample :: "'r \<Rightarrow> table \<Rightarrow> cell list \<Rightarrow> error + table \<times> cell list"

text \<open>\<^verbatim>\<open>check_random_state\<close>: without a seed an estimator draws from the global generator
  of numpy, with a seed from a new generator made from that seed.\<close>

definition check_random_state :: "('r, 'x) library_scheme \<Rightarrow> nat option \<Rightarrow> 'r \<Rightarrow> 'r" where
  "check_random_state L random_state global_state =
     (case random_state of None \<Rightarrow> global_state | Some n \<Rightarrow> RandomState L n)"

text \<open>The columns of a table as numpy sees them, and the dtype of the array they make:
  numeric when every part is, \<^verbatim>\<open>object\<close> otherwise.\<close>

fun columns_of :: "table \<Rightarrow> cell list list" where
  "columns_of (DataFrame df) = map cells df"
| "columns_of (NdArray d cols) = cols"

fun asarray_dtype :: "table \<Rightarrow> dtype" where
  "asarray_dtype (DataFrame df) = (if list_all (\<lambda>c. dtype c = DNumber) df then DNumber else DObject)"
| "asarray_dtype (NdArray d cols) = (if d = DNumber then DNumber else DObject)"

fun rectangular :: "cell list list \<Rightarrow> bool" where
  "rectangular [] = True"
| "rectangular (c # cs) = list_all (\<lambda>c'. length c' = length c) cs"

text \<open>\<^verbatim>\<open>np.hstack\<close>: the columns of the blocks side by side, in the order of the blocks;
  \<^verbatim>\<open>ValueError\<close> when the blocks differ in their number of rows. \<^verbatim>\<open>np.c_[X, y]\<close> appends
  the vector \<open>y\<close> of integers as one more column.\<close>

definition hstack :: "table list \<Rightarrow> error + table" where
  "hstack Zs =
     (let cols = concat (map columns_of Zs) in
      if rectangular cols
      then Inr (NdArray (if list_all (\<lambda>Z. asarray_dtype Z = DNumber) Zs then DNumber else DObject) cols)
      else Inl ValueError)"

definition np_c :: "table \<Rightarrow> cell list \<Rightarrow> error + table" where
  "np_c X y = hstack [X, NdArray DNumber [y]]"

text \<open>Sequencing of statements that may raise: the first exception ends the sequence.\<close>

fun then_do :: "error + 'a \<Rightarrow> ('a \<Rightarrow> error + 'b) \<Rightarrow> error + 'b" where
  "then_do (Inl e) f = Inl e"
| "then_do (Inr x) f = f x"

text \<open>\<^verbatim>\<open>df.drop(columns=[col])\<close> and \<^verbatim>\<open>df[col]\<close> raise \<^verbatim>\<open>KeyError\<close> when no column has the
  label.\<close>

definition drop_columns :: "frame \<Rightarrow> key \<Rightarrow> error + frame" where
  "drop_columns df col =
     (if getitem df col = [] then Inl KeyError else Inr (filter (\<lambda>c. label c \<noteq> col) df))"

definition getitem_checked :: "frame \<Rightarrow> key \<Rightarrow> error + frame" where
  "getitem_checked df col = (if getitem df col = [] then Inl KeyError else Inr (getitem df col))"

text \<open>\<^verbatim>\<open>LabelEncoder.fit_transform\<close>, on a selection \<^verbatim>\<open>df[col]\<close>: the classes and the codes.\<close>

definition LabelEncoder_fit_transform :: "frame \<Rightarrow> error + cell list \<times> cell list" where
  "LabelEncoder_fit_transform sel =
     (case column_or_1d sel of
        Inl e \<Rightarrow> Inl e
      | Inr y \<Rightarrow>
          (case unique y of
             Inl e \<Rightarrow> Inl e
           | Inr classes \<Rightarrow> Inr (classes, class_codes classes y)))"

text \<open>
  scikit-learn's \<^verbatim>\<open>Pipeline\<close>: \<^verbatim>\<open>fit_transform\<close> fits each step on the output of the
  steps before it and returns the fitted steps with the output of the last;
  \<^verbatim>\<open>transform\<close> runs the fitted steps in order.
\<close>

fun Pipeline_fit_transform :: "stage list \<Rightarrow> table \<Rightarrow> error + fitted_step list \<times> table" where
  "Pipeline_fit_transform [] X = Inr ([], X)"
| "Pipeline_fit_transform (step # steps) X =
     (case step X of
        Inl e \<Rightarrow> Inl e
      | Inr f \<Rightarrow>
          (case f X of
             Inl e \<Rightarrow> Inl e
           | Inr X1 \<Rightarrow>
               (case Pipeline_fit_transform steps X1 of
                  Inl e \<Rightarrow> Inl e
                | Inr (fs, Z) \<Rightarrow> Inr (f # fs, Z))))"

fun Pipeline_transform :: "fitted_step list \<Rightarrow> table \<Rightarrow> error + table" where
  "Pipeline_transform [] X = Inr X"
| "Pipeline_transform (f # fs) X =
     (case f X of Inl e \<Rightarrow> Inl e | Inr X1 \<Rightarrow> Pipeline_transform fs X1)"

text \<open>
  scikit-learn's \<^verbatim>\<open>ColumnTransformer\<close> with the default \<^verbatim>\<open>remainder='drop'\<close>. A
  transformer is a name, a pipeline and the labels of its columns. The selection of
  named columns from a frame raises \<^verbatim>\<open>ValueError\<close> unless every name is the label of
  exactly one column. All selections are validated before anything is fitted. The
  blocks are stacked in the order of the transformers.
\<close>

type_synonym transformer = "string \<times> stage list \<times> key list"

definition selectable :: "frame \<Rightarrow> key list \<Rightarrow> bool" where
  "selectable X names = list_all (\<lambda>n. length (getitem X n) = 1) names"

definition select :: "frame \<Rightarrow> key list \<Rightarrow> error + frame" where
  "select X names =
     (if selectable X names then Inr (concat (map (getitem X) names)) else Inl ValueError)"

fun fit_transform_each ::
  "transformer list \<Rightarrow> frame \<Rightarrow> error + (fitted_step list \<times> key list) list \<times> table list" where
  "fit_transform_each [] X = Inr ([], [])"
| "fit_transform_each ((name, steps, columns) # trs) X =
     (case select X columns of
        Inl e \<Rightarrow> Inl e
      | Inr Xsub \<Rightarrow>
          (case Pipeline_fit_transform steps (DataFrame Xsub) of
             Inl e \<Rightarrow> Inl e
           | Inr (fs, Z) \<Rightarrow>
               (case fit_transform_each trs X of
                  Inl e \<Rightarrow> Inl e
                | Inr (fitted_trs, Zs) \<Rightarrow> Inr ((fs, columns) # fitted_trs, Z # Zs))))"

fun transform_each :: "(fitted_step list \<times> key list) list \<Rightarrow> frame \<Rightarrow> error + table list" where
  "transform_each [] X = Inr []"
| "transform_each ((fs, columns) # fitted_trs) X =
     (case select X columns of
        Inl e \<Rightarrow> Inl e
      | Inr Xsub \<Rightarrow>
          (case Pipeline_transform fs (DataFrame Xsub) of
             Inl e \<Rightarrow> Inl e
           | Inr Z \<Rightarrow>
               (case transform_each fitted_trs X of
                  Inl e \<Rightarrow> Inl e
                | Inr Zs \<Rightarrow> Inr (Z # Zs))))"

definition ColumnTransformer_fit_transform ::
  "transformer list \<Rightarrow> frame \<Rightarrow> error + (fitted_step list \<times> key list) list \<times> table" where
  "ColumnTransformer_fit_transform trs X =
     (if \<not> list_all (\<lambda>(name, steps, columns). selectable X columns) trs then Inl ValueError
      else
        (case fit_transform_each trs X of
           Inl e \<Rightarrow> Inl e
         | Inr (fitted_trs, Zs) \<Rightarrow>
             (case hstack Zs of Inl e \<Rightarrow> Inl e | Inr Z \<Rightarrow> Inr (fitted_trs, Z))))"

definition ColumnTransformer_transform ::
  "(fitted_step list \<times> key list) list \<Rightarrow> frame \<Rightarrow> error + table" where
  "ColumnTransformer_transform fitted_trs X =
     (if \<not> list_all (\<lambda>(fs, columns). selectable X columns) fitted_trs then Inl ValueError
      else
        (case transform_each fitted_trs X of
           Inl e \<Rightarrow> Inl e
         | Inr Zs \<Rightarrow> hstack Zs))"

section \<open>\<^verbatim>\<open>DataTransformation\<close>\<close>

text \<open>\<^verbatim>\<open>DataTransformationConfig.preprocessor_obj_file_path\<close>, with the path separator of
  POSIX.\<close>

definition preprocessor_obj_file_path :: string where
  "preprocessor_obj_file_path = ''artifacts/preprocessor.pkl''"

text \<open>The custom transformer as a pipeline step: \<^verbatim>\<open>fit\<close> of a new
  \<^verbatim>\<open>LabelEncodingTransformer()\<close>, whose \<^verbatim>\<open>transform\<close> is then the fitted step.\<close>

definition LabelEncodingTransformer_step :: stage where
  "LabelEncodingTransformer_step X =
     (case fit init X of
        (self, None) \<Rightarrow> Inr (transform self)
      | (self, Some e) \<Rightarrow> Inl e)"

definition numerical_columns :: "key list" where
  "numerical_columns =
     [Name ''Air temperature K'', Name ''Process temperature K'', Name ''Rotational speed rpm'',
      Name ''Torque Nm'', Name ''Tool wear min'']"

definition categorical_columns :: "key list" where
  "categorical_columns = [Name ''Type'']"

definition num_pipeline :: "('r, 'x) library_scheme \<Rightarrow> stage list" where
  "num_pipeline L = [SimpleImputer_median L, StandardScaler L]"

definition cat_pipeline :: "('r, 'x) library_scheme \<Rightarrow> stage list" where
  "cat_pipeline L =
     [SimpleImputer_most_frequent L, LabelEncodingTransformer_step, StandardScaler_without_mean L]"

definition get_data_transformer_object :: "('r, 'x) library_scheme \<Rightarrow> transformer list" where
  "get_data_transformer_object L =
     [(''num_pipeline'', num_pipeline L, numerical_columns),
      (''cat_pipeline'', cat_pipeline L, categorical_columns)]"

definition target_column_name :: key where
  "target_column_name = Name ''Failure Type''"

text \<open>
  The body of the \<^verbatim>\<open>try\<close> block of \<^verbatim>\<open>initiate_data_transformation\<close>, statement by
  statement: each statement either raises, which ends the block, or binds its result
  for the statements after it. Logging (the module \<^verbatim>\<open>src.logger\<close>, which only receives
  messages) and \<^verbatim>\<open>print\<close> have no effect on the result, and the two calls of
  \<^verbatim>\<open>save_object\<close> are commented out in the source.
  \<open>global_state\<close> is the state of numpy's global generator when the method is called.
\<close>

definition transformation_steps ::
  "('r, 'x) library_scheme \<Rightarrow> 'r \<Rightarrow> string \<Rightarrow> string \<Rightarrow> error + table \<times> table \<times> string" where
  "transformation_steps L global_state train_path test_path =
     then_do (read_csv L train_path) (\<lambda>train_df.
     then_do (read_csv L test_path) (\<lambda>test_df.
     then_do (Inr (get_data_transformer_object L)) (\<lambda>preprocessing_obj.
     then_do (drop_columns train_df target_column_name) (\<lambda>input_feature_train_df.
     then_do (getitem_checked train_df target_column_name) (\<lambda>target_feature_train_df.
     then_do (drop_columns test_df target_column_name) (\<lambda>input_feature_test_df.
     then_do (getitem_checked test_df target_column_name) (\<lambda>target_feature_test_df.
     then_do (ColumnTransformer_fit_transform preprocessing_obj input_feature_train_df)
       (\<lambda>(fitted_obj, input_feature_train_arr).
     then_do (ColumnTransformer_transform fitted_obj input_feature_test_df)
       (\<lambda>input_feature_test_arr.
     then_do (LabelEncoder_fit_transform target_feature_train_df) (\<lambda>(classes, target_train).
     then_do (LabelEncoder_transform_sel (Some classes) target_feature_test_df) (\<lambda>target_test.
     then_do (SMOTETomek_fit_resample L (check_random_state L (Some 42) global_state)
                input_feature_train_arr target_train)
       (\<lambda>(input_feature_train_resampled_arr, target_feature_train_resampled_arr).
     then_do (np_c input_feature_train_resampled_arr target_feature_train_resampled_arr)
       (\<lambda>train_arr.
     then_do (np_c input_feature_test_arr target_test) (\<lambda>test_arr.
     Inr (train_arr, test_arr, preprocessor_obj_file_path)))))))))))))))"

text \<open>\<^verbatim>\<open>except Exception as e: raise CustomException(e, sys)\<close>.\<close>

definition initiate_data_transformation ::
  "('r, 'x) library_scheme \<Rightarrow> 'r \<Rightarrow> string \<Rightarrow> string \<Rightarrow> error + table \<times> table \<times> string" where
  "initiate_data_transformation L global_state train_path test_path =
     (case transformation_steps L global_state train_path test_path of
        Inl e \<Rightarrow> Inl (CustomException e)
      | Inr result \<Rightarrow> Inr result)"

section \<open>Assumptions on the libraries, and example data\<close>



text \<open>
  The simplest library: every numeric step returns its input as an array, and the
  rebalancer returns what it is given. Its files are three small tables; the third has a
  target value that the training table does not have.
\<close>

definition as_array :: fitted_step where
  "as_array X = Inr (NdArray (asarray_dtype X) (columns_of X))"

definition passthrough :: stage where
  "passthrough X = Inr as_array"

definition train_table :: frame where
  "train_table =
     [Column (Name ''UDI'') DNumber [Num 1, Num 2, Num 3],
      Column (Name ''Type'') DObject [Str ''M'', Str ''L'', Str ''L''],
      Column (Name ''Air temperature K'') DNumber [Num 298, Num 299, Num 300],
      Column (Name ''Process temperature K'') DNumber [Num 308, Num 309, Num 310],
      Column (Name ''Rotational speed rpm'') DNumber [Num 1500, Num 1400, Num 1600],
      Column (Name ''Torque Nm'') DNumber [Num 40, Num 42, Num 39],
      Column (Name ''Tool wear min'') DNumber [Num 0, Num 3, Num 5],
      Column (Name ''Failure Type'') DObject
        [Str ''No Failure'', Str ''Heat Dissipation Failure'', Str ''No Failure'']]"

definition test_features :: frame where
  "test_features =
     [Column (Name ''UDI'') DNumber [Num 4, Num 5],
      Column (Name ''Type'') DObject [Str ''L'', Str ''M''],
      Column (Name ''Air temperature K'') DNumber [Num 297, Num 301],
      Column (Name ''Process temperature K'') DNumber [Num 307, Num 311],
      Column (Name ''Rotational speed rpm'') DNumber [Num 1450, Num 1550],
      Column (Name ''Torque Nm'') DNumber [Num 41, Num 38],
      Column (Name ''Tool wear min'') DNumber [Num 7, Num 9]]"

definition test_table :: frame where
  "test_table =
     test_features @ [Column (Name ''Failure Type'') DObject [Str ''No Failure'', Str ''No Failure'']]"

definition unseen_table :: frame where
  "unseen_table =
     test_features @ [Column (Name ''Failure Type'') DObject [Str ''Power Failure'', Str ''No Failure'']]"

definition example_files :: "string \<Rightarrow> error + frame" where
  "example_files path =
     (if path = ''train.csv'' then Inr train_table
      else if path = ''test.csv'' then Inr test_table
      else if path = ''unseen.csv'' then Inr unseen_table
      else Inl IOError)"

definition plain_library :: "nat library" where
  "plain_library =
     \<lparr>read_csv = example_files,
      SimpleImputer_median = passthrough,
      StandardScaler = passthrough,
      SimpleImputer_most_frequent = passthrough,
      StandardScaler_without_mean = passthrough,
      RandomState = (\<lambda>n. n),
      SMOTETomek_fit_resample = (\<lambda>r X y. Inr (X, y))\<rparr>"

definition example_train_arr :: table where
  "example_train_arr =
     NdArray DObject
       [[Num 298, Num 299, Num 300], [Num 308, Num 309, Num 310], [Num 1500, Num 1400, Num 1600],
        [Num 40, Num 42, Num 39], [Num 0, Num 3, Num 5], [Num 1, Num 0, Num 0],
        [Num 1, Num 0, Num 1]]"

definition example_test_arr :: table where
  "example_test_arr =
     NdArray DObject
       [[Num 297, Num 301], [Num 307, Num 311], [Num 1450, Num 1550], [Num 41, Num 38],
        [Num 7, Num 9], [Num 0, Num 1], [Num 1, Num 1]]"

text \<open>Another rebalancer, which returns every row twice.\<close>

definition doubling_rebalancer :: "nat \<Rightarrow> table \<Rightarrow> cell list \<Rightarrow> error + table \<times> cell list" where
  "doubling_rebalancer r X y =
     Inr (NdArray (asarray_dtype X) (map (\<lambda>c. c @ c) (columns_of X)), y @ y)"


section \<open>Properties of the label encoder\<close>

lemma index_of_less: "v \<in> set cs \<Longrightarrow> index_of cs v < length cs"
  by (induction cs) auto

lemma nth_index_of: "v \<in> set cs \<Longrightarrow> cs ! index_of cs v = v"
  by (induction cs) auto

lemma index_of_nth: "distinct cs \<Longrightarrow> i < length cs \<Longrightarrow> index_of cs (cs ! i) = i"
proof (induction cs arbitrary: i)
  case Nil
  then show ?case by simp
next
  case (Cons c cs)
  then show ?case by (cases i) auto
qed

lemma index_of_bij: "distinct cs \<Longrightarrow> bij_betw (index_of cs) (set cs) {0..<length cs}"
  by (rule bij_betw_byWitness [where f' = "\<lambda>i. cs ! i"])
     (auto simp: index_of_less nth_index_of index_of_nth)

lemma cell_less_irrefl: "\<not> cell_less c c"
  by (cases c) auto

lemma sorted_wrt_cell_less_distinct: "sorted_wrt cell_less cs \<Longrightarrow> distinct cs"
  by (induction cs) (auto simp: cell_less_irrefl)

lemma sorted_wrt_Str: "sorted_wrt cell_less (map Str xs) = (sorted xs \<and> distinct xs)"
  by (simp add: sorted_wrt_map strict_sorted_iff)

lemma sorted_wrt_Num: "sorted_wrt cell_less (map Num xs) = (sorted xs \<and> distinct xs)"
  by (simp add: sorted_wrt_map strict_sorted_iff)

lemma Str_the_str_image: "list_all is_Str y \<Longrightarrow> Str ` the_str ` set y = set y"
  by (force simp: list_all_iff image_iff)

lemma Num_the_num_image: "list_all is_Num y \<Longrightarrow> Num ` the_num ` set y = set y"
  by (force simp: list_all_iff image_iff)

lemma unique_Inr:
  assumes "unique y = Inr classes"
  shows "sorted_wrt cell_less classes" and "set classes = set y"
  using assms
  by (auto simp: unique_def sorted_wrt_Str sorted_wrt_Num Str_the_str_image Num_the_num_image
      split: if_splits)

lemma unique_sorted_codes: "unique y = Inr classes \<Longrightarrow> sorted_codes classes y"
  unfolding sorted_codes_def
  using unique_Inr [of y classes] sorted_wrt_cell_less_distinct [of classes]
    index_of_bij [of classes] index_of_nth [of classes]
  by auto


section \<open>Properties of \<^verbatim>\<open>fit\<close>\<close>

lemma getitem_single: "c \<in> set X \<Longrightarrow> getitem X (label c) = [c'] \<Longrightarrow> c' = c"
proof -
  assume a: "c \<in> set X" and b: "getitem X (label c) = [c']"
  from a have "c \<in> set (getitem X (label c))" by (simp add: getitem_def)
  with b show ?thesis by simp
qed

lemma fit_frame_unchanged:
  "fit_frame X cols enc = (enc', r) \<Longrightarrow>
     \<not> (k \<in> set cols \<and> (\<exists>c. getitem X k = [c] \<and> (dtype c = DObject \<or> dtype c = DCategory))) \<Longrightarrow>
     enc' k = enc k"
proof (induction cols arbitrary: enc)
  case Nil
  then show ?case by simp
next
  case (Cons col cols)
  then show ?case
    by (auto split: list.splits if_splits sum.splits)
qed


lemma fit_frame_learned:
  "fit_frame X cols enc = (enc', None) \<Longrightarrow> col \<in> set cols \<Longrightarrow>
     \<exists>c. getitem X col = [c] \<and>
       (dtype c = DObject \<or> dtype c = DCategory \<longrightarrow>
          (\<exists>classes. unique (cells c) = Inr classes \<and> enc' col = Some (Some classes)))"
proof (induction cols arbitrary: enc)
  case Nil
  then show ?case by simp
next
  case (Cons a cols)
  from Cons.prems(1) obtain c where gi: "getitem X a = [c]"
    by (auto split: list.splits)
  show ?case
  proof (cases "dtype c = DObject \<or> dtype c = DCategory")
    case True
    with Cons.prems(1) gi obtain classes where
      u: "unique (cells c) = Inr classes" and
      rest: "fit_frame X cols (enc(a \<mapsto> Some classes)) = (enc', None)"
      by (auto simp: LabelEncoder_fit_def split: sum.splits)
    show ?thesis
    proof (cases "col \<in> set cols")
      case True
      from Cons.IH [OF rest True] show ?thesis .
    next
      case False
      with Cons.prems(2) have eq: "col = a" by simp
      from fit_frame_unchanged [OF rest, of col] False
      have "enc' col = (enc(a \<mapsto> Some classes)) col" by simp
      with eq gi u show ?thesis by simp
    qed
  next
    case False
    with Cons.prems(1) gi have rest: "fit_frame X cols enc = (enc', None)" by auto
    show ?thesis
    proof (cases "col \<in> set cols")
      case True
      from Cons.IH [OF rest True] show ?thesis .
    next
      case F2: False
      with Cons.prems(2) have eq: "col = a" by simp
      with gi False show ?thesis by simp
    qed
  qed
qed

lemma fit_array_unchanged:
  "fit_array d X is enc = (enc', r) \<Longrightarrow>
     issubdtype_number d \<or> k \<notin> Idx ` set is \<Longrightarrow> enc' k = enc k"
proof (induction "is" arbitrary: enc)
  case Nil
  then show ?case by simp
next
  case (Cons i "is")
  then show ?case
    by (auto split: if_splits sum.splits)
qed


lemma fit_array_learned:
  "fit_array d X is enc = (enc', None) \<Longrightarrow> \<not> issubdtype_number d \<Longrightarrow> i \<in> set is \<Longrightarrow>
     \<exists>classes. unique (X ! i) = Inr classes \<and> enc' (Idx i) = Some (Some classes)"
proof (induction "is" arbitrary: enc)
  case Nil
  then show ?case by simp
next
  case (Cons a "is")
  from Cons.prems(1,2) obtain classes where
    u: "unique (X ! a) = Inr classes" and
    rest: "fit_array d X is (enc(Idx a \<mapsto> Some classes)) = (enc', None)"
    by (auto simp: LabelEncoder_fit_def split: sum.splits)
  show ?case
  proof (cases "i \<in> set is")
    case True
    from Cons.IH [OF rest Cons.prems(2) True] show ?thesis .
  next
    case False
    with Cons.prems(3) have eq: "i = a" by simp
    from False have "Idx i \<notin> Idx ` set is" by (auto simp: image_iff)
    with fit_array_unchanged [OF rest, of "Idx i"]
    have "enc' (Idx i) = (enc(Idx a \<mapsto> Some classes)) (Idx i)" by blast
    with eq u show ?thesis by simp
  qed
qed

text \<open>
  Claim C2. When \<^verbatim>\<open>fit\<close> returns, it has learned an encoder for exactly the columns that
  are not numeric at that time: in a frame, every column of dtype \<^verbatim>\<open>object\<close> or
  \<^verbatim>\<open>category\<close>; in an array, every column when the dtype of the array is not a number
  type. What is learned for a column is the sorted list of its distinct values, whose
  positions are a bijection from those values onto \<open>0..k-1\<close>. For a numeric column, and
  for every other key, the dictionary is as it was before the call.
\<close>

theorem fit_learns_sorted_codes:
  assumes "fit self X = (self', None)"
  shows "(\<forall>df. X = DataFrame df \<longrightarrow>
            (\<forall>c\<in>set df. dtype c = DObject \<or> dtype c = DCategory \<longrightarrow>
               (\<exists>classes. encoders self' (label c) = Some (Some classes) \<and>
                          sorted_codes classes (cells c))) \<and>
            (\<forall>c\<in>set df. dtype c = DNumber \<longrightarrow> encoders self' (label c) = encoders self (label c)) \<and>
            (\<forall>k. \<not> (\<exists>c\<in>set df. label c = k \<and> (dtype c = DObject \<or> dtype c = DCategory)) \<longrightarrow>
                 encoders self' k = encoders self k)) \<and>
         (\<forall>d cols. X = NdArray d cols \<longrightarrow>
            (\<not> issubdtype_number d \<longrightarrow>
               (\<forall>i<length cols. \<exists>classes. encoders self' (Idx i) = Some (Some classes) \<and>
                                          sorted_codes classes (cols ! i))) \<and>
            (\<forall>k. issubdtype_number d \<or> k \<notin> Idx ` {0..<length cols} \<longrightarrow>
                 encoders self' k = encoders self k))"
proof -
  have frame_part:
    "(\<forall>c\<in>set df. dtype c = DObject \<or> dtype c = DCategory \<longrightarrow>
        (\<exists>classes. encoders self' (label c) = Some (Some classes) \<and>
                   sorted_codes classes (cells c))) \<and>
     (\<forall>c\<in>set df. dtype c = DNumber \<longrightarrow> encoders self' (label c) = encoders self (label c)) \<and>
     (\<forall>k. \<not> (\<exists>c\<in>set df. label c = k \<and> (dtype c = DObject \<or> dtype c = DCategory)) \<longrightarrow>
          encoders self' k = encoders self k)"
    if X: "X = DataFrame df" for df
  proof (intro conjI)
  from assms X obtain enc' where
    ff: "fit_frame df (map label df) (encoders self) = (enc', None)" and
    enc': "encoders self' = enc'"
    by (auto simp: fit_def split: prod.splits)
  have single: "getitem df (label c) = [c]" if "c \<in> set df" for c
  proof -
    from that have "label c \<in> set (map label df)" by simp
    from fit_frame_learned [OF ff this] obtain c' where "getitem df (label c) = [c']" by blast
    with getitem_single [OF that] show ?thesis by simp
  qed
  show "\<forall>c\<in>set df. dtype c = DObject \<or> dtype c = DCategory \<longrightarrow>
          (\<exists>classes. encoders self' (label c) = Some (Some classes) \<and>
                     sorted_codes classes (cells c))"
  proof (intro ballI impI)
    fix c
    assume c: "c \<in> set df" and dt: "dtype c = DObject \<or> dtype c = DCategory"
    from c have "label c \<in> set (map label df)" by simp
    from fit_frame_learned [OF ff this] single [OF c] dt
    obtain classes where "unique (cells c) = Inr classes" "enc' (label c) = Some (Some classes)"
      by auto
    with enc' unique_sorted_codes
    show "\<exists>classes. encoders self' (label c) = Some (Some classes) \<and>
            sorted_codes classes (cells c)"
      by auto
  qed
  show "\<forall>c\<in>set df. dtype c = DNumber \<longrightarrow> encoders self' (label c) = encoders self (label c)"
  proof (intro ballI impI)
    fix c
    assume c: "c \<in> set df" and dt: "dtype c = DNumber"
    from single [OF c] dt
    have "\<not> (label c \<in> set (map label df) \<and>
             (\<exists>c'. getitem df (label c) = [c'] \<and> (dtype c' = DObject \<or> dtype c' = DCategory)))"
      by auto
    from fit_frame_unchanged [OF ff this] enc'
    show "encoders self' (label c) = encoders self (label c)" by simp
  qed
  show "\<forall>k. \<not> (\<exists>c\<in>set df. label c = k \<and> (dtype c = DObject \<or> dtype c = DCategory)) \<longrightarrow>
          encoders self' k = encoders self k"
  proof (intro allI impI)
    fix k
    assume k: "\<not> (\<exists>c\<in>set df. label c = k \<and> (dtype c = DObject \<or> dtype c = DCategory))"
    have "\<not> (k \<in> set (map label df) \<and>
             (\<exists>c. getitem df k = [c] \<and> (dtype c = DObject \<or> dtype c = DCategory)))"
    proof
      assume "k \<in> set (map label df) \<and>
             (\<exists>c. getitem df k = [c] \<and> (dtype c = DObject \<or> dtype c = DCategory))"
      then obtain c where g: "getitem df k = [c]" and dt: "dtype c = DObject \<or> dtype c = DCategory"
        by blast
      from g have "c \<in> set (getitem df k)" by simp
      then have "c \<in> set df" "label c = k" by (auto simp: getitem_def)
      with dt k show False by blast
    qed
    from fit_frame_unchanged [OF ff this] enc'
    show "encoders self' k = encoders self k" by simp
  qed
  qed
  have array_part:
    "(\<not> issubdtype_number d \<longrightarrow>
        (\<forall>i<length cols. \<exists>classes. encoders self' (Idx i) = Some (Some classes) \<and>
                                   sorted_codes classes (cols ! i))) \<and>
     (\<forall>k. issubdtype_number d \<or> k \<notin> Idx ` {0..<length cols} \<longrightarrow>
          encoders self' k = encoders self k)"
    if X: "X = NdArray d cols" for d cols
  proof (intro conjI impI)
  from assms X obtain enc' where
    fa: "fit_array d cols [0..<length cols] (encoders self) = (enc', None)" and
    enc': "encoders self' = enc'"
    by (auto simp: fit_def split: prod.splits)
  show "\<forall>i<length cols. \<exists>classes. encoders self' (Idx i) = Some (Some classes) \<and>
          sorted_codes classes (cols ! i)" if "\<not> issubdtype_number d"
    using that
  proof (intro allI impI)
    fix i
    assume "i < length cols"
    then have "i \<in> set [0..<length cols]" by simp
    from fit_array_learned [OF fa that this] enc' unique_sorted_codes
    show "\<exists>classes. encoders self' (Idx i) = Some (Some classes) \<and>
            sorted_codes classes (cols ! i)"
      by auto
  qed
  show "\<forall>k. issubdtype_number d \<or> k \<notin> Idx ` {0..<length cols} \<longrightarrow>
          encoders self' k = encoders self k"
  proof (intro allI impI)
    fix k
    assume "issubdtype_number d \<or> k \<notin> Idx ` {0..<length cols}"
    then have "issubdtype_number d \<or> k \<notin> Idx ` set [0..<length cols]" by simp
    from fit_array_unchanged [OF fa this] enc'
    show "encoders self' k = encoders self k" by simp
  qed
  qed
  from frame_part array_part show ?thesis by blast
qed

lemma fit_example_frame:
  "fit init (DataFrame example_frame) = (example_transformer, None)"
  by (simp add: fit_def init_def example_frame_def example_transformer_def getitem_def
      LabelEncoder_fit_def unique_def)

lemma fit_example_array: "fit init example_array = (array_transformer, None)"
  by (simp add: fit_def init_def example_array_def array_transformer_def LabelEncoder_fit_def
      unique_def digit_def)

theorem fit_learns_sorted_codes_witness:
  "fit init (DataFrame example_frame) = (example_transformer, None) \<and>
   encoders example_transformer (Name ''Type'') = Some (Some [Str ''H'', Str ''L'', Str ''M'']) \<and>
   sorted_codes [Str ''H'', Str ''L'', Str ''M''] [Str ''M'', Str ''L'', Str ''H'', Str ''L''] \<and>
   encoders example_transformer (Name ''Torque Nm'') = encoders init (Name ''Torque Nm'') \<and>
   fit init example_array = (array_transformer, None) \<and>
   encoders array_transformer (Idx 1) = Some (Some [Num 39, Num 40, Num 42]) \<and>
   sorted_codes [Num 39, Num 40, Num 42] [Num 40, Num 42, Num 39, Num 40]"
proof -
  note h = fit_example_frame
  from fit_learns_sorted_codes [OF h]
  have a: "\<forall>c\<in>set example_frame. dtype c = DObject \<or> dtype c = DCategory \<longrightarrow>
          (\<exists>classes. encoders example_transformer (label c) = Some (Some classes) \<and>
                     sorted_codes classes (cells c))"
    and b: "\<forall>c\<in>set example_frame. dtype c = DNumber \<longrightarrow>
          encoders example_transformer (label c) = encoders init (label c)"
    by blast+
  have e: "encoders example_transformer (Name ''Type'') =
             Some (Some [Str ''H'', Str ''L'', Str ''M''])"
    by (simp add: example_transformer_def)
  from a e have one: "sorted_codes [Str ''H'', Str ''L'', Str ''M'']
                   [Str ''M'', Str ''L'', Str ''H'', Str ''L'']"
    by (simp add: example_frame_def)
  from b
  have two: "encoders example_transformer (Name ''Torque Nm'') = encoders init (Name ''Torque Nm'')"
    by (simp add: example_frame_def)
  note h' = fit_example_array
  from fit_learns_sorted_codes [OF h']
  have c: "\<forall>i<2. \<exists>classes. encoders array_transformer (Idx i) = Some (Some classes) \<and>
             sorted_codes classes
               ([[Str ''M'', Str ''L'', Str ''H'', Str ''L''], [Num 40, Num 42, Num 39, Num 40]] ! i)"
    by (simp add: example_array_def)
  have e': "encoders array_transformer (Idx 1) = Some (Some [Num 39, Num 40, Num 42])"
    by (simp add: array_transformer_def)
  from c [rule_format, of 1]
  have "\<exists>classes. encoders array_transformer (Idx 1) = Some (Some classes) \<and>
             sorted_codes classes [Num 40, Num 42, Num 39, Num 40]"
    by simp
  with e' have three: "sorted_codes [Num 39, Num 40, Num 42] [Num 40, Num 42, Num 39, Num 40]"
    by simp
  from h e one two h' e' three show ?thesis by blast
qed

section \<open>Properties of \<^verbatim>\<open>transform\<close>\<close>

lemma length_class_codes: "length (class_codes classes y) = length y"
  by (simp add: class_codes_def)

lemma encode_cases:
  "encode classes y = (if set y \<subseteq> set classes then Inr (class_codes classes y) else Inl ValueError)"
  by (auto simp: encode_def list_all_iff)

lemma transform_frame_Inr:
  assumes "\<forall>col\<in>set cols. \<forall>le. enc col = Some le \<longrightarrow>
             (\<exists>cds. LabelEncoder_transform_sel le (getitem X col) = Inr cds)"
  shows "transform_frame enc X cols Xe =
           Inr (map (\<lambda>c. if label c \<in> set cols then transform_column enc X c else c) Xe)"
  using assms
proof (induction cols arbitrary: Xe)
  case Nil
  then show ?case by simp
next
  case (Cons col cols)
  from Cons.prems have rest: "\<forall>col\<in>set cols. \<forall>le. enc col = Some le \<longrightarrow>
             (\<exists>cds. LabelEncoder_transform_sel le (getitem X col) = Inr cds)" by simp
  show ?case
  proof (cases "enc col")
    case None
    then have "transform_frame enc X (col # cols) Xe = transform_frame enc X cols Xe" by simp
    also have "\<dots> = Inr (map (\<lambda>c. if label c \<in> set cols then transform_column enc X c else c) Xe)"
      by (rule Cons.IH [OF rest])
    also have "map (\<lambda>c. if label c \<in> set cols then transform_column enc X c else c) Xe =
               map (\<lambda>c. if label c \<in> set (col # cols) then transform_column enc X c else c) Xe"
      using None by (auto simp: transform_column_def)
    finally show ?thesis .
  next
    case (Some le)
    with Cons.prems obtain cds where cds: "LabelEncoder_transform_sel le (getitem X col) = Inr cds"
      by auto
    have "transform_frame enc X (col # cols) Xe = transform_frame enc X cols (setitem Xe col cds)"
      using Some cds by simp
    also have "\<dots> = Inr (map (\<lambda>c. if label c \<in> set cols then transform_column enc X c else c)
                          (setitem Xe col cds))"
      by (rule Cons.IH [OF rest])
    also have "map (\<lambda>c. if label c \<in> set cols then transform_column enc X c else c)
                 (setitem Xe col cds) =
               map (\<lambda>c. if label c \<in> set (col # cols) then transform_column enc X c else c) Xe"
      using Some cds by (auto simp: setitem_def transform_column_def)
    finally show ?thesis .
  qed
qed


lemma transform_array_Inr:
  assumes "\<forall>i\<in>set is. \<forall>le. enc (Idx i) = Some le \<longrightarrow>
             (\<exists>cds. LabelEncoder_transform le (X ! i) = Inr cds)"
  shows "\<exists>Z. transform_array enc X is Xe = Inr Z \<and> length Z = length Xe \<and>
           (\<forall>i<length Xe. Z ! i =
              (if i \<in> set is
               then (case enc (Idx i) of
                       None \<Rightarrow> Xe ! i
                     | Some le \<Rightarrow>
                         (case LabelEncoder_transform le (X ! i) of
                            Inl e \<Rightarrow> Xe ! i | Inr cds \<Rightarrow> cds))
               else Xe ! i))"
  using assms
proof (induction "is" arbitrary: Xe)
  case Nil
  then show ?case by simp
next
  case (Cons a "is")
  from Cons.prems have rest: "\<forall>i\<in>set is. \<forall>le. enc (Idx i) = Some le \<longrightarrow>
             (\<exists>cds. LabelEncoder_transform le (X ! i) = Inr cds)" by simp
  show ?case
  proof (cases "enc (Idx a)")
    case None
    from Cons.IH [OF rest, of Xe] obtain Z where
      Z: "transform_array enc X is Xe = Inr Z" "length Z = length Xe"
         "\<forall>i<length Xe. Z ! i =
              (if i \<in> set is
               then (case enc (Idx i) of
                       None \<Rightarrow> Xe ! i
                     | Some le \<Rightarrow>
                         (case LabelEncoder_transform le (X ! i) of
                            Inl e \<Rightarrow> Xe ! i | Inr cds \<Rightarrow> cds))
               else Xe ! i)"
      by blast
    from Z None show ?thesis by auto
  next
    case (Some le)
    with Cons.prems obtain cds where cds: "LabelEncoder_transform le (X ! a) = Inr cds"
      by auto
    from Cons.IH [OF rest, of "Xe[a := cds]"] obtain Z where
      Z: "transform_array enc X is (Xe[a := cds]) = Inr Z" "length Z = length Xe"
         "\<forall>i<length Xe. Z ! i =
              (if i \<in> set is
               then (case enc (Idx i) of
                       None \<Rightarrow> Xe[a := cds] ! i
                     | Some le \<Rightarrow>
                         (case LabelEncoder_transform le (X ! i) of
                            Inl e \<Rightarrow> Xe[a := cds] ! i | Inr cds \<Rightarrow> cds))
               else Xe[a := cds] ! i)"
      by auto
    have "transform_array enc X (a # is) Xe = Inr Z" using Some cds Z(1) by simp
    moreover have "\<forall>i<length Xe. Z ! i =
              (if i \<in> set (a # is)
               then (case enc (Idx i) of
                       None \<Rightarrow> Xe ! i
                     | Some le \<Rightarrow>
                         (case LabelEncoder_transform le (X ! i) of
                            Inl e \<Rightarrow> Xe ! i | Inr cds \<Rightarrow> cds))
               else Xe ! i)"
    proof (intro allI impI)
      fix i assume i: "i < length Xe"
      show "Z ! i =
              (if i \<in> set (a # is)
               then (case enc (Idx i) of
                       None \<Rightarrow> Xe ! i
                     | Some le \<Rightarrow>
                         (case LabelEncoder_transform le (X ! i) of
                            Inl e \<Rightarrow> Xe ! i | Inr cds \<Rightarrow> cds))
               else Xe ! i)"
      proof (cases "i = a")
        case True
        with Z(3) i Some cds show ?thesis by simp
      next
        case False
        with Z(3) i show ?thesis by (auto split: option.splits sum.splits)
      qed
    qed
    ultimately show ?thesis using Z(2) by blast
  qed
qed


lemma sel_single: "LabelEncoder_transform_sel (Some classes) [c] = encode classes (cells c)"
  by (simp add: LabelEncoder_transform_sel_def column_or_1d_def split: sum.splits)








section \<open>\<^verbatim>\<open>transform\<close> and the store\<close>

lemma transform_frame_Inr_D:
  "transform_frame enc X cols Xe = Inr Z \<Longrightarrow>
     \<forall>col\<in>set cols. \<forall>le. enc col = Some le \<longrightarrow>
        (\<exists>cds. LabelEncoder_transform_sel le (getitem X col) = Inr cds)"
proof (induction cols arbitrary: Xe)
  case Nil
  then show ?case by simp
next
  case (Cons col cols)
  show ?case
  proof (cases "enc col")
    case None
    with Cons.prems have "transform_frame enc X cols Xe = Inr Z" by simp
    from Cons.IH [OF this] None show ?thesis by simp
  next
    case (Some le)
    with Cons.prems obtain cds where
      cds: "LabelEncoder_transform_sel le (getitem X col) = Inr cds" and
      rest: "transform_frame enc X cols (setitem Xe col cds) = Inr Z"
      by (auto split: sum.splits)
    from Cons.IH [OF rest] Some cds show ?thesis by simp
  qed
qed

lemma transform_array_Inr_D:
  "transform_array enc X is Xe = Inr Z \<Longrightarrow>
     \<forall>i\<in>set is. \<forall>le. enc (Idx i) = Some le \<longrightarrow>
        (\<exists>cds. LabelEncoder_transform le (X ! i) = Inr cds)"
proof (induction "is" arbitrary: Xe)
  case Nil
  then show ?case by simp
next
  case (Cons a "is")
  show ?case
  proof (cases "enc (Idx a)")
    case None
    with Cons.prems have "transform_array enc X is Xe = Inr Z" by simp
    from Cons.IH [OF this] None show ?thesis by simp
  next
    case (Some le)
    with Cons.prems obtain cds where
      cds: "LabelEncoder_transform le (X ! a) = Inr cds" and
      rest: "transform_array enc X is (Xe[a := cds]) = Inr Z"
      by (auto split: sum.splits)
    from Cons.IH [OF rest] Some cds show ?thesis by simp
  qed
qed

lemma transform_frame_result:
  assumes "transform_frame enc X (map label X) X = Inr Z"
  shows "Z = map (transform_column enc X) X"
proof -
  from transform_frame_Inr [OF transform_frame_Inr_D [OF assms], of X] assms
  show ?thesis by (simp cong: map_cong)
qed

lemma sel_Inr_D:
  assumes "LabelEncoder_transform_sel le (getitem X (label c)) = Inr cds" and "c \<in> set X"
  shows "\<exists>classes. le = Some classes \<and> getitem X (label c) = [c] \<and>
           set (cells c) \<subseteq> set classes \<and> cds = class_codes classes (cells c)"
proof -
  from assms(1) obtain classes y where le: "le = Some classes"
      and y: "column_or_1d (getitem X (label c)) = Inr y" and e: "encode classes y = Inr cds"
    by (auto simp: LabelEncoder_transform_sel_def split: option.splits sum.splits)
  from y obtain c' where g: "getitem X (label c) = [c']" and y': "y = cells c'"
    by (auto simp: column_or_1d_def split: list.splits)
  from getitem_single [OF assms(2) g] have "c' = c" .
  with le g y' e show ?thesis by (auto simp: encode_cases split: if_splits)
qed

lemma LabelEncoder_transform_Inr_D:
  assumes "LabelEncoder_transform le y = Inr cds"
  shows "\<exists>classes. le = Some classes \<and> set y \<subseteq> set classes \<and> cds = class_codes classes y"
  using assms
  by (auto simp: LabelEncoder_transform_def encode_cases split: option.splits if_splits)

lemma transform_column_cells:
  assumes "c \<in> set X"
  shows "length (cells (transform_column enc X c)) = length (cells c)"
proof (cases "enc (label c)")
  case None
  then show ?thesis by (simp add: transform_column_def)
next
  case (Some le)
  show ?thesis
  proof (cases "LabelEncoder_transform_sel le (getitem X (label c))")
    case (Inl e)
    with Some show ?thesis by (simp add: transform_column_def)
  next
    case (Inr cds)
    from sel_Inr_D [OF Inr assms] Some Inr show ?thesis
      by (auto simp: transform_column_def length_class_codes)
  qed
qed

lemma transform_shape:
  assumes "transform self X = Inr Z"
  shows "shape Z = shape X"
proof (cases X)
  case (DataFrame df)
  with assms obtain Z' where Z': "transform_frame (encoders self) df (map label df) df = Inr Z'"
    and Z: "Z = DataFrame Z'"
    by (auto simp: transform_def split: sum.splits)
  from transform_frame_result [OF Z'] have "Z' = map (transform_column (encoders self) df) df" .
  with Z DataFrame show ?thesis by (simp add: transform_column_cells)
next
  case (NdArray d cols)
  with assms obtain Z' where Z': "transform_array (encoders self) cols [0..<length cols] cols = Inr Z'"
    and Z: "Z = NdArray d Z'"
    by (auto simp: transform_def split: sum.splits)
  from transform_array_Inr [OF transform_array_Inr_D [OF Z'], of cols] Z'
  have len: "length Z' = length cols" and
    nth: "\<forall>i<length cols. Z' ! i =
              (if i \<in> set [0..<length cols]
               then (case encoders self (Idx i) of
                       None \<Rightarrow> cols ! i
                     | Some le \<Rightarrow>
                         (case LabelEncoder_transform le (cols ! i) of
                            Inl e \<Rightarrow> cols ! i | Inr cds \<Rightarrow> cds))
               else cols ! i)"
    by auto
  have "length (Z' ! i) = length (cols ! i)" if "i < length cols" for i
  proof (cases "encoders self (Idx i)")
    case None
    with nth that show ?thesis by simp
  next
    case (Some le)
    show ?thesis
    proof (cases "LabelEncoder_transform le (cols ! i)")
      case (Inl e)
      with nth that Some show ?thesis by simp
    next
      case (Inr cds)
      from LabelEncoder_transform_Inr_D [OF Inr] nth that Some Inr show ?thesis
        by (auto simp: length_class_codes)
    qed
  qed
  with len have "map length Z' = map length cols"
    by (simp add: list_eq_iff_nth_eq)
  with Z NdArray show ?thesis by simp
qed

lemma transform_frame_st_refines:
  assumes "x < length h" "r < length h" "x \<noteq> r" "h ! x = DataFrame X" "h ! r = DataFrame Xe"
  shows "\<exists>G. transform_frame_st enc x r cols h =
               (h[r := G], case transform_frame enc X cols Xe of Inl e \<Rightarrow> Some e | Inr Z \<Rightarrow> None) \<and>
             (\<forall>Z. transform_frame enc X cols Xe = Inr Z \<longrightarrow> G = DataFrame Z)"
  using assms
proof (induction cols arbitrary: h Xe)
  case Nil
  have "h[r := DataFrame Xe] = h" using Nil.prems(5) by (metis list_update_id)
  then show ?case by auto
next
  case (Cons col cols)
  show ?case
  proof (cases "enc col")
    case None
    from Cons.IH [OF Cons.prems] None show ?thesis by simp
  next
    case (Some le)
    show ?thesis
    proof (cases "LabelEncoder_transform_sel le (getitem X col)")
      case (Inl e)
      have "h[r := h ! r] = h" by (rule list_update_id)
      with Some Inl Cons.prems(4) show ?thesis by (intro exI [of _ "h ! r"]) simp
    next
      case (Inr cds)
      let ?h = "h[r := DataFrame (setitem Xe col cds)]"
      have "x < length ?h" "r < length ?h" "?h ! x = DataFrame X"
        "?h ! r = DataFrame (setitem Xe col cds)"
        using Cons.prems by simp_all
      from Cons.IH [OF this(1,2) Cons.prems(3) this(3,4)] obtain G where
        G: "transform_frame_st enc x r cols ?h =
               (?h[r := G], case transform_frame enc X cols (setitem Xe col cds) of
                              Inl e \<Rightarrow> Some e | Inr Z \<Rightarrow> None)"
           "\<forall>Z. transform_frame enc X cols (setitem Xe col cds) = Inr Z \<longrightarrow> G = DataFrame Z"
        by blast
      have "transform_frame_st enc x r (col # cols) h = transform_frame_st enc x r cols ?h"
        using Some Inr Cons.prems(4,5) by simp
      moreover have "transform_frame enc X (col # cols) Xe =
                     transform_frame enc X cols (setitem Xe col cds)"
        using Some Inr by simp
      ultimately show ?thesis using G by (intro exI [of _ G]) simp
    qed
  qed
qed

lemma transform_array_st_refines:
  assumes "x < length h" "r < length h" "x \<noteq> r" "h ! x = NdArray d X" "h ! r = NdArray d' Xe"
  shows "\<exists>G. transform_array_st enc x r is h =
               (h[r := G], case transform_array enc X is Xe of Inl e \<Rightarrow> Some e | Inr Z \<Rightarrow> None) \<and>
             (\<forall>Z. transform_array enc X is Xe = Inr Z \<longrightarrow> G = NdArray d' Z)"
  using assms
proof (induction "is" arbitrary: h Xe)
  case Nil
  have "h[r := NdArray d' Xe] = h" using Nil.prems(5) by (metis list_update_id)
  then show ?case by auto
next
  case (Cons i "is")
  show ?case
  proof (cases "enc (Idx i)")
    case None
    from Cons.IH [OF Cons.prems] None show ?thesis by simp
  next
    case (Some le)
    show ?thesis
    proof (cases "LabelEncoder_transform le (X ! i)")
      case (Inl e)
      have "h[r := h ! r] = h" by (rule list_update_id)
      with Some Inl Cons.prems(4) show ?thesis by (intro exI [of _ "h ! r"]) simp
    next
      case (Inr cds)
      let ?h = "h[r := NdArray d' (Xe[i := cds])]"
      have "x < length ?h" "r < length ?h" "?h ! x = NdArray d X"
        "?h ! r = NdArray d' (Xe[i := cds])"
        using Cons.prems by simp_all
      from Cons.IH [OF this(1,2) Cons.prems(3) this(3,4)] obtain G where
        G: "transform_array_st enc x r is ?h =
               (?h[r := G], case transform_array enc X is (Xe[i := cds]) of
                              Inl e \<Rightarrow> Some e | Inr Z \<Rightarrow> None)"
           "\<forall>Z. transform_array enc X is (Xe[i := cds]) = Inr Z \<longrightarrow> G = NdArray d' Z"
        by blast
      have "transform_array_st enc x r (i # is) h = transform_array_st enc x r is ?h"
        using Some Inr Cons.prems(4,5) by simp
      moreover have "transform_array enc X (i # is) Xe = transform_array enc X is (Xe[i := cds])"
        using Some Inr by simp
      ultimately show ?thesis using G by (intro exI [of _ G]) simp
    qed
  qed
qed

lemma transform_st_refines:
  assumes "x < length h"
  shows "\<exists>G. transform_st self x h =
               (h @ [G], case transform self (h ! x) of Inl e \<Rightarrow> Inl e | Inr Z \<Rightarrow> Inr (length h)) \<and>
             (\<forall>Z. transform self (h ! x) = Inr Z \<longrightarrow> G = Z)"
proof (cases "h ! x")
  case (DataFrame df)
  let ?h1 = "h @ [h ! x]"
  have "x < length ?h1" "length h < length ?h1" "x \<noteq> length h" "?h1 ! x = DataFrame df"
    "?h1 ! length h = DataFrame df"
    using assms DataFrame by (simp_all add: nth_append)
  from transform_frame_st_refines [OF this, of "encoders self" "map label df"] obtain G where
    G: "transform_frame_st (encoders self) x (length h) (map label df) ?h1 =
               (?h1[length h := G],
                case transform_frame (encoders self) df (map label df) df of
                  Inl e \<Rightarrow> Some e | Inr Z \<Rightarrow> None)"
       "\<forall>Z. transform_frame (encoders self) df (map label df) df = Inr Z \<longrightarrow> G = DataFrame Z"
    by blast
  have upd: "?h1[length h := G] = h @ [G]" by simp
  show ?thesis
    using G DataFrame upd
    by (intro exI [of _ G]) (auto simp: transform_st_def transform_def Let_def split: sum.splits)
next
  case (NdArray d cols)
  let ?h1 = "h @ [h ! x]"
  have "x < length ?h1" "length h < length ?h1" "x \<noteq> length h" "?h1 ! x = NdArray d cols"
    "?h1 ! length h = NdArray d cols"
    using assms NdArray by (simp_all add: nth_append)
  from transform_array_st_refines [OF this, of "encoders self" "[0..<length cols]"] obtain G where
    G: "transform_array_st (encoders self) x (length h) [0..<length cols] ?h1 =
               (?h1[length h := G],
                case transform_array (encoders self) cols [0..<length cols] cols of
                  Inl e \<Rightarrow> Some e | Inr Z \<Rightarrow> None)"
       "\<forall>Z. transform_array (encoders self) cols [0..<length cols] cols = Inr Z \<longrightarrow> G = NdArray d Z"
    by blast
  have upd: "?h1[length h := G] = h @ [G]" by simp
  show ?thesis
    using G NdArray upd
    by (intro exI [of _ G]) (auto simp: transform_st_def transform_def Let_def split: sum.splits)
qed

text \<open>
  Claim C8. \<^verbatim>\<open>transform\<close> does not change its input: after the call every object that
  was in the store, the input among them, is what it was, whether the call returns or
  raises. The one new object is the copy. When the call returns, its result is that new
  object, and it has the shape of the input: as many columns, each of as many rows.
\<close>


theorem transform_leaves_input:
  assumes "x < length h" and "transform_st self x h = (h', res)"
  shows "(\<forall>a<length h. h' ! a = h ! a) \<and> length h' = Suc (length h) \<and>
         (\<forall>r. res = Inr r \<longrightarrow> r = length h \<and> shape (h' ! r) = shape (h ! x))"
proof -
  from transform_st_refines [OF assms(1), of self] assms(2) obtain G where
    h': "h' = h @ [G]" and
    res: "res = (case transform self (h ! x) of Inl e \<Rightarrow> Inl e | Inr Z \<Rightarrow> Inr (length h))" and
    G: "\<forall>Z. transform self (h ! x) = Inr Z \<longrightarrow> G = Z"
    by auto
  have new: "r = length h \<and> shape (h' ! r) = shape (h ! x)" if "res = Inr r" for r
  proof -
    from that res obtain Z where Z: "transform self (h ! x) = Inr Z" and r: "r = length h"
      by (auto split: sum.splits)
    from G Z have "G = Z" by simp
    with transform_shape [OF Z] h' r show ?thesis by simp
  qed
  have old: "\<forall>a<length h. h' ! a = h ! a" using h' by (simp add: nth_append)
  have len: "length h' = Suc (length h)" using h' by simp
  from old len new show ?thesis by blast
qed

lemma transform_st_example:
  "transform_st example_transformer 0 [DataFrame example_frame] =
     ([DataFrame example_frame, DataFrame example_encoded], Inr 1)"
  by (simp add: transform_st_def example_transformer_def example_frame_def example_encoded_def
      getitem_def setitem_def LabelEncoder_transform_sel_def column_or_1d_def encode_def
      class_codes_def)

theorem transform_leaves_input_witness:
  "transform_st example_transformer 0 [DataFrame example_frame] =
     ([DataFrame example_frame, DataFrame example_encoded], Inr 1) \<and>
   [DataFrame example_frame, DataFrame example_encoded] ! 0 = DataFrame example_frame \<and>
   shape (DataFrame example_encoded) = shape (DataFrame example_frame)"
proof -
  have x: "0 < length [DataFrame example_frame]" by simp
  from transform_leaves_input [OF x transform_st_example]
  show ?thesis using transform_st_example by simp
qed

lemma fit_init_transform_ok:
  assumes "fit init X = (self, None)"
  shows "\<exists>Z. transform self X = Inr Z"
proof (cases X)
  case (DataFrame df)
  from assms DataFrame have
    ff: "fit_frame df (map label df) Map.empty = (encoders self, None)"
    by (auto simp: fit_def init_def split: prod.splits)
  have ok: "\<forall>col\<in>set (map label df). \<forall>le. encoders self col = Some le \<longrightarrow>
             (\<exists>cds. LabelEncoder_transform_sel le (getitem df col) = Inr cds)"
  proof (intro ballI allI impI)
    fix col le
    assume col: "col \<in> set (map label df)" and le: "encoders self col = Some le"
    from fit_frame_learned [OF ff col] obtain c where
      g: "getitem df col = [c]" and
      l: "dtype c = DObject \<or> dtype c = DCategory \<longrightarrow>
            (\<exists>classes. unique (cells c) = Inr classes \<and> encoders self col = Some (Some classes))"
      by blast
    show "\<exists>cds. LabelEncoder_transform_sel le (getitem df col) = Inr cds"
    proof (cases "dtype c = DObject \<or> dtype c = DCategory")
      case True
      with l le obtain classes where u: "unique (cells c) = Inr classes" and "le = Some classes"
        by auto
      with unique_Inr(2) [OF u] g show ?thesis by (simp add: sel_single encode_cases)
    next
      case False
      with g have "\<not> (col \<in> set (map label df) \<and>
          (\<exists>c. getitem df col = [c] \<and> (dtype c = DObject \<or> dtype c = DCategory)))" by simp
      from fit_frame_unchanged [OF ff this] le show ?thesis by simp
    qed
  qed
  from transform_frame_Inr [OF ok, of df] DataFrame show ?thesis
    by (simp add: transform_def)
next
  case (NdArray d cols)
  from assms NdArray have
    fa: "fit_array d cols [0..<length cols] Map.empty = (encoders self, None)"
    by (auto simp: fit_def init_def split: prod.splits)
  have ok: "\<forall>i\<in>set [0..<length cols]. \<forall>le. encoders self (Idx i) = Some le \<longrightarrow>
             (\<exists>cds. LabelEncoder_transform le (cols ! i) = Inr cds)"
  proof (intro ballI allI impI)
    fix i le
    assume i: "i \<in> set [0..<length cols]" and le: "encoders self (Idx i) = Some le"
    show "\<exists>cds. LabelEncoder_transform le (cols ! i) = Inr cds"
    proof (cases "issubdtype_number d")
      case True
      then have "issubdtype_number d \<or> Idx i \<notin> Idx ` set [0..<length cols]" by simp
      from fit_array_unchanged [OF fa this] le show ?thesis by simp
    next
      case False
      from fit_array_learned [OF fa False i] le obtain classes where
        u: "unique (cols ! i) = Inr classes" and "le = Some classes" by auto
      with unique_Inr(2) [OF u] show ?thesis
        by (simp add: LabelEncoder_transform_def encode_cases)
    qed
  qed
  from transform_array_Inr [OF ok, of cols] obtain Z where
    "transform_array (encoders self) cols [0..<length cols] cols = Inr Z" by blast
  with NdArray show ?thesis by (simp add: transform_def)
qed

text \<open>
  Claim C9. After \<^verbatim>\<open>fit\<close> of a new transformer on a table (whose cells, by their type,
  are not missing values), \<^verbatim>\<open>transform\<close> of that table returns, and a second
  \<^verbatim>\<open>transform\<close> of the same input returns a table identical to the first.
\<close>


theorem fit_transform_idempotent:
  assumes "x < length h" and "fit init (h ! x) = (self, None)"
  shows "\<exists>Z. transform_st self x h = (h @ [Z], Inr (length h)) \<and>
             transform_st self x (h @ [Z]) = (h @ [Z, Z], Inr (Suc (length h)))"
proof -
  from fit_init_transform_ok [OF assms(2)] obtain Z where Z: "transform self (h ! x) = Inr Z"
    by blast
  from transform_st_refines [OF assms(1), of self] Z
  have one: "transform_st self x h = (h @ [Z], Inr (length h))" by auto
  have x': "x < length (h @ [Z])" using assms(1) by simp
  have same: "(h @ [Z]) ! x = h ! x" using assms(1) by (simp add: nth_append)
  from transform_st_refines [OF x', of self] Z same
  have two: "transform_st self x (h @ [Z]) = (h @ [Z, Z], Inr (Suc (length h)))" by auto
  from one two show ?thesis by blast
qed

theorem fit_transform_idempotent_witness:
  "fit init (DataFrame example_frame) = (example_transformer, None) \<and>
   (\<exists>Z. transform_st example_transformer 0 [DataFrame example_frame] =
           ([DataFrame example_frame, Z], Inr 1) \<and>
        transform_st example_transformer 0 [DataFrame example_frame, Z] =
           ([DataFrame example_frame, Z, Z], Inr 2))"
proof -
  have x: "0 < length [DataFrame example_frame]" by simp
  have f: "fit init ([DataFrame example_frame] ! 0) = (example_transformer, None)"
    by (simp add: fit_example_frame)
  from fit_transform_idempotent [OF x f] f
  show ?thesis by (simp add: numeral_2_eq_2)
qed

section \<open>Repeated calls of \<^verbatim>\<open>fit\<close>\<close>








section \<open>Properties of the column router\<close>

lemma then_do_Inr: "then_do m f = Inr y \<longleftrightarrow> (\<exists>x. m = Inr x \<and> f x = Inr y)"
  by (cases m) auto

lemma steps_InrE:
  assumes "transformation_steps L g p q = Inr (train_arr, test_arr, path)"
  obtains train_df test_df Xtr ytr Xte yte fitted_obj Ztr Zte classes ctr cte Xres yres where
    "read_csv L p = Inr train_df" "read_csv L q = Inr test_df"
    "drop_columns train_df target_column_name = Inr Xtr"
    "getitem_checked train_df target_column_name = Inr ytr"
    "drop_columns test_df target_column_name = Inr Xte"
    "getitem_checked test_df target_column_name = Inr yte"
    "ColumnTransformer_fit_transform (get_data_transformer_object L) Xtr = Inr (fitted_obj, Ztr)"
    "ColumnTransformer_transform fitted_obj Xte = Inr Zte"
    "LabelEncoder_fit_transform ytr = Inr (classes, ctr)"
    "LabelEncoder_transform_sel (Some classes) yte = Inr cte"
    "SMOTETomek_fit_resample L (RandomState L 42) Ztr ctr = Inr (Xres, yres)"
    "np_c Xres yres = Inr train_arr" "np_c Zte cte = Inr test_arr"
    "path = preprocessor_obj_file_path"
  using assms
  unfolding transformation_steps_def check_random_state_def
  by (auto simp: then_do_Inr)

lemma hstack_Inr:
  assumes "hstack Zs = Inr Z"
  shows "\<exists>d. Z = NdArray d (concat (map columns_of Zs))" and "rectangular (columns_of Z)"
  using assms by (auto simp: hstack_def Let_def split: if_splits)

lemma np_c_Inr:
  assumes "np_c X y = Inr Z"
  shows "\<exists>d. Z = NdArray d (columns_of X @ [y])" and "rectangular (columns_of Z)"
  using hstack_Inr [of "[X, NdArray DNumber [y]]" Z] assms by (auto simp: np_c_def)

lemma rectangular_same_length:
  "rectangular cs \<Longrightarrow> c \<in> set cs \<Longrightarrow> c' \<in> set cs \<Longrightarrow> length c = length c'"
  by (cases cs) (auto simp: list_all_iff)














text \<open>The definitions that a run on the example data unfolds.\<close>

lemmas run_defs = initiate_data_transformation_def transformation_steps_def plain_library_def
  example_files_def train_table_def test_table_def unseen_table_def test_features_def
  get_data_transformer_object_def num_pipeline_def cat_pipeline_def numerical_columns_def
  categorical_columns_def target_column_name_def drop_columns_def getitem_checked_def
  ColumnTransformer_fit_transform_def ColumnTransformer_transform_def select_def selectable_def
  getitem_def passthrough_def as_array_def LabelEncodingTransformer_step_def fit_def init_def
  transform_def LabelEncoder_fit_def unique_def LabelEncoder_transform_def encode_def
  class_codes_def hstack_def np_c_def LabelEncoder_fit_transform_def column_or_1d_def
  LabelEncoder_transform_sel_def check_random_state_def preprocessor_obj_file_path_def
  example_train_arr_def example_test_arr_def




section \<open>Properties of the driver\<close>








lemma getitem_checked_Inr: "getitem_checked df col = Inr sel \<Longrightarrow> sel = getitem df col"
  by (auto simp: getitem_checked_def split: if_splits)

lemma LabelEncoder_fit_transform_Inr:
  assumes "LabelEncoder_fit_transform sel = Inr (classes, cds)"
  shows "\<exists>c. sel = [c] \<and> unique (cells c) = Inr classes \<and> cds = class_codes classes (cells c)"
  using assms
  by (auto simp: LabelEncoder_fit_transform_def column_or_1d_def split: sum.splits list.splits)

lemma sel_Some_Inr:
  assumes "LabelEncoder_transform_sel (Some classes) sel = Inr cds"
  shows "\<exists>c. sel = [c] \<and> set (cells c) \<subseteq> set classes \<and> cds = class_codes classes (cells c)"
  using assms
  by (auto simp: LabelEncoder_transform_sel_def column_or_1d_def encode_cases
      split: sum.splits list.splits if_splits)

lemma initiate_Inr:
  "initiate_data_transformation L g p q = Inr r \<longleftrightarrow> transformation_steps L g p q = Inr r"
  by (simp add: initiate_data_transformation_def split: sum.splits)

lemma initiate_Inl:
  "initiate_data_transformation L g p q = Inl e \<Longrightarrow> \<exists>e'. e = CustomException e'"
  by (auto simp: initiate_data_transformation_def split: sum.splits)

lemma target_facts:
  assumes "transformation_steps L g p q = Inr (train_arr, test_arr, path)"
  shows "\<exists>train_df test_df ctr cte classes X Xres.
           read_csv L p = Inr train_df \<and> read_csv L q = Inr test_df \<and>
           getitem train_df target_column_name = [ctr] \<and>
           getitem test_df target_column_name = [cte] \<and>
           unique (cells ctr) = Inr classes \<and> set (cells cte) \<subseteq> set classes \<and>
           last (columns_of test_arr) = class_codes classes (cells cte) \<and>
           SMOTETomek_fit_resample L (RandomState L 42) X (class_codes classes (cells ctr)) =
             Inr (Xres, last (columns_of train_arr))"
proof -
  from assms obtain train_df test_df Xtr ytr Xte yte fitted_obj Ztr Zte classes ctr cte Xres yres
    where s:
    "read_csv L p = Inr train_df" "read_csv L q = Inr test_df"
    "drop_columns train_df target_column_name = Inr Xtr"
    "getitem_checked train_df target_column_name = Inr ytr"
    "drop_columns test_df target_column_name = Inr Xte"
    "getitem_checked test_df target_column_name = Inr yte"
    "ColumnTransformer_fit_transform (get_data_transformer_object L) Xtr = Inr (fitted_obj, Ztr)"
    "ColumnTransformer_transform fitted_obj Xte = Inr Zte"
    "LabelEncoder_fit_transform ytr = Inr (classes, ctr)"
    "LabelEncoder_transform_sel (Some classes) yte = Inr cte"
    "SMOTETomek_fit_resample L (RandomState L 42) Ztr ctr = Inr (Xres, yres)"
    "np_c Xres yres = Inr train_arr" "np_c Zte cte = Inr test_arr"
    "path = preprocessor_obj_file_path"
    by (rule steps_InrE)
  from LabelEncoder_fit_transform_Inr [OF s(9)] getitem_checked_Inr [OF s(4)]
  obtain c1 where c1: "getitem train_df target_column_name = [c1]"
    "unique (cells c1) = Inr classes" "ctr = class_codes classes (cells c1)" by auto
  from sel_Some_Inr [OF s(10)] getitem_checked_Inr [OF s(6)]
  obtain c2 where c2: "getitem test_df target_column_name = [c2]"
    "set (cells c2) \<subseteq> set classes" "cte = class_codes classes (cells c2)" by auto
  from np_c_Inr(1) [OF s(12)] have l1: "last (columns_of train_arr) = yres" by auto
  from np_c_Inr(1) [OF s(13)] have l2: "last (columns_of test_arr) = cte" by auto
  from s(1,2) c1 c2 l1 l2 s(11) show ?thesis by blast
qed

lemma run_example:
  "initiate_data_transformation plain_library 0 ''train.csv'' ''test.csv'' =
     Inr (example_train_arr, example_test_arr, ''artifacts/preprocessor.pkl'')"
  by (simp add: run_defs)







text \<open>
  Claim C4. When the driver returns, the classes of the target encoder are the sorted
  distinct values of the training split's \<^verbatim>\<open>Failure Type\<close> column, numbered
  \<open>0..k-1\<close>; the rebalancer is given the codes of the training targets under these
  classes, and the last column of the test matrix holds the codes of the test targets
  under the same classes. When the test split has a target value that does not occur in
  the training split, the driver raises.
\<close>


theorem target_encoder:
  "(\<forall>train_arr test_arr path.
      initiate_data_transformation L g p q = Inr (train_arr, test_arr, path) \<longrightarrow>
      (\<exists>train_df test_df ctr cte classes X Xres.
         read_csv L p = Inr train_df \<and> read_csv L q = Inr test_df \<and>
         getitem train_df target_column_name = [ctr] \<and>
         getitem test_df target_column_name = [cte] \<and>
         sorted_codes classes (cells ctr) \<and> set (cells cte) \<subseteq> set classes \<and>
         last (columns_of test_arr) = class_codes classes (cells cte) \<and>
         SMOTETomek_fit_resample L (RandomState L 42) X (class_codes classes (cells ctr)) =
           Inr (Xres, last (columns_of train_arr)))) \<and>
   (\<forall>train_df test_df ctr cte.
      read_csv L p = Inr train_df \<and> read_csv L q = Inr test_df \<and>
      ctr \<in> set train_df \<and> label ctr = target_column_name \<and>
      cte \<in> set test_df \<and> label cte = target_column_name \<and>
      \<not> set (cells cte) \<subseteq> set (cells ctr) \<longrightarrow>
      (\<exists>e. initiate_data_transformation L g p q = Inl (CustomException e)))"
proof (intro conjI allI impI)
  fix train_arr test_arr path
  assume "initiate_data_transformation L g p q = Inr (train_arr, test_arr, path)"
  then have st: "transformation_steps L g p q = Inr (train_arr, test_arr, path)"
    by (simp add: initiate_Inr)
  from target_facts [OF st] obtain train_df test_df ctr cte classes X Xres where t:
    "read_csv L p = Inr train_df" "read_csv L q = Inr test_df"
    "getitem train_df target_column_name = [ctr]"
    "getitem test_df target_column_name = [cte]"
    "unique (cells ctr) = Inr classes" "set (cells cte) \<subseteq> set classes"
    "last (columns_of test_arr) = class_codes classes (cells cte)"
    "SMOTETomek_fit_resample L (RandomState L 42) X (class_codes classes (cells ctr)) =
       Inr (Xres, last (columns_of train_arr))"
    by blast
  from unique_sorted_codes [OF t(5)] t
  show "\<exists>train_df test_df ctr cte classes X Xres.
         read_csv L p = Inr train_df \<and> read_csv L q = Inr test_df \<and>
         getitem train_df target_column_name = [ctr] \<and>
         getitem test_df target_column_name = [cte] \<and>
         sorted_codes classes (cells ctr) \<and> set (cells cte) \<subseteq> set classes \<and>
         last (columns_of test_arr) = class_codes classes (cells cte) \<and>
         SMOTETomek_fit_resample L (RandomState L 42) X (class_codes classes (cells ctr)) =
           Inr (Xres, last (columns_of train_arr))"
    by blast
next
  fix train_df test_df ctr cte
  assume a: "read_csv L p = Inr train_df \<and> read_csv L q = Inr test_df \<and>
      ctr \<in> set train_df \<and> label ctr = target_column_name \<and>
      cte \<in> set test_df \<and> label cte = target_column_name \<and>
      \<not> set (cells cte) \<subseteq> set (cells ctr)"
  show "\<exists>e. initiate_data_transformation L g p q = Inl (CustomException e)"
  proof (cases "initiate_data_transformation L g p q")
    case (Inl e)
    with initiate_Inl [OF Inl] show ?thesis by auto
  next
    case (Inr r)
    obtain train_arr test_arr path where r: "r = (train_arr, test_arr, path)" by (cases r) auto
    from Inr r have st: "transformation_steps L g p q = Inr (train_arr, test_arr, path)"
      by (simp add: initiate_Inr)
    from target_facts [OF st] a obtain ctr' cte' classes where t:
      "getitem train_df target_column_name = [ctr']"
      "getitem test_df target_column_name = [cte']"
      "unique (cells ctr') = Inr classes" "set (cells cte') \<subseteq> set classes"
      by auto
    from a t(1) have "ctr' = ctr" using getitem_single [of ctr train_df ctr'] by auto
    moreover from a t(2) have "cte' = cte" using getitem_single [of cte test_df cte'] by auto
    ultimately have "set (cells cte) \<subseteq> set (cells ctr)"
      using t(3,4) unique_Inr(2) [OF t(3)] by simp
    with a show ?thesis by simp
  qed
qed

theorem target_encoder_witness:
  "initiate_data_transformation plain_library 0 ''train.csv'' ''test.csv'' =
     Inr (example_train_arr, example_test_arr, ''artifacts/preprocessor.pkl'') \<and>
   (\<exists>classes. sorted_codes classes
        [Str ''No Failure'', Str ''Heat Dissipation Failure'', Str ''No Failure''] \<and>
      last (columns_of example_test_arr) =
        class_codes classes [Str ''No Failure'', Str ''No Failure'']) \<and>
   (\<exists>e. initiate_data_transformation plain_library 0 ''train.csv'' ''unseen.csv'' =
          Inl (CustomException e))"
proof -
  let ?ctr = "Column (Name ''Failure Type'') DObject
        [Str ''No Failure'', Str ''Heat Dissipation Failure'', Str ''No Failure'']"
  let ?cte = "Column (Name ''Failure Type'') DObject [Str ''No Failure'', Str ''No Failure'']"
  let ?cun = "Column (Name ''Failure Type'') DObject [Str ''Power Failure'', Str ''No Failure'']"
  have r1: "read_csv plain_library ''train.csv'' = Inr train_table"
    and r2: "read_csv plain_library ''test.csv'' = Inr test_table"
    and r3: "read_csv plain_library ''unseen.csv'' = Inr unseen_table"
    by (simp_all add: plain_library_def example_files_def)
  have g1: "getitem train_table target_column_name = [?ctr]"
    and g2: "getitem test_table target_column_name = [?cte]"
    by (simp_all add: getitem_def train_table_def test_table_def test_features_def
        target_column_name_def)
  note t = target_encoder [where L = plain_library and g = 0 and p = "''train.csv''"]
  from t [where q = "''test.csv''"] run_example r1 r2 g1 g2
  have one: "\<exists>classes. sorted_codes classes
        [Str ''No Failure'', Str ''Heat Dissipation Failure'', Str ''No Failure''] \<and>
      last (columns_of example_test_arr) =
        class_codes classes [Str ''No Failure'', Str ''No Failure'']"
    by fastforce
  have m: "read_csv plain_library ''train.csv'' = Inr train_table \<and>
      read_csv plain_library ''unseen.csv'' = Inr unseen_table \<and>
      ?ctr \<in> set train_table \<and> label ?ctr = target_column_name \<and>
      ?cun \<in> set unseen_table \<and> label ?cun = target_column_name \<and>
      \<not> set (cells ?cun) \<subseteq> set (cells ?ctr)"
    using r1 r3 by (simp add: train_table_def unseen_table_def target_column_name_def)
  from t [where q = "''unseen.csv''"] m
  have two: "\<exists>e. initiate_data_transformation plain_library 0 ''train.csv'' ''unseen.csv'' =
          Inl (CustomException e)"
    by blast
  from one two run_example show ?thesis by blast
qed

lemma steps_test_arr:
  assumes "transformation_steps L g p q = Inr (train_arr, test_arr, path)"
    and "transformation_steps (L\<lparr>SMOTETomek_fit_resample := s, RandomState := rs\<rparr>) g' p q =
           Inr (train_arr', test_arr', path')"
  shows "test_arr' = test_arr"
proof -
  let ?L' = "L\<lparr>SMOTETomek_fit_resample := s, RandomState := rs\<rparr>"
  from assms(1) obtain train_df test_df Xtr ytr Xte yte fitted_obj Ztr Zte classes ctr cte Xres yres
    where s:
    "read_csv L p = Inr train_df" "read_csv L q = Inr test_df"
    "drop_columns train_df target_column_name = Inr Xtr"
    "getitem_checked train_df target_column_name = Inr ytr"
    "drop_columns test_df target_column_name = Inr Xte"
    "getitem_checked test_df target_column_name = Inr yte"
    "ColumnTransformer_fit_transform (get_data_transformer_object L) Xtr = Inr (fitted_obj, Ztr)"
    "ColumnTransformer_transform fitted_obj Xte = Inr Zte"
    "LabelEncoder_fit_transform ytr = Inr (classes, ctr)"
    "LabelEncoder_transform_sel (Some classes) yte = Inr cte"
    "np_c Zte cte = Inr test_arr"
    by (rule steps_InrE)
  from assms(2) obtain train_df' test_df' Xtr' ytr' Xte' yte' fitted_obj' Ztr' Zte' classes' ctr' cte'
      Xres' yres'
    where s':
    "read_csv ?L' p = Inr train_df'" "read_csv ?L' q = Inr test_df'"
    "drop_columns train_df' target_column_name = Inr Xtr'"
    "getitem_checked train_df' target_column_name = Inr ytr'"
    "drop_columns test_df' target_column_name = Inr Xte'"
    "getitem_checked test_df' target_column_name = Inr yte'"
    "ColumnTransformer_fit_transform (get_data_transformer_object ?L') Xtr' = Inr (fitted_obj', Ztr')"
    "ColumnTransformer_transform fitted_obj' Xte' = Inr Zte'"
    "LabelEncoder_fit_transform ytr' = Inr (classes', ctr')"
    "LabelEncoder_transform_sel (Some classes') yte' = Inr cte'"
    "np_c Zte' cte' = Inr test_arr'"
    by (rule steps_InrE)
  have same: "get_data_transformer_object ?L' = get_data_transformer_object L"
    by (simp add: get_data_transformer_object_def num_pipeline_def cat_pipeline_def)
  from s(1,2) s'(1,2) have "train_df' = train_df" "test_df' = test_df" by simp_all
  with s(3-6) s'(3-6) have e1: "Xtr' = Xtr" "ytr' = ytr" "Xte' = Xte" "yte' = yte" by simp_all
  with s(7) s'(7) same have e2: "fitted_obj' = fitted_obj" by simp
  with s(8) s'(8) e1 have e3: "Zte' = Zte" by simp
  from s(9) s'(9) e1 have "classes' = classes" by simp
  with s(10) s'(10) e1 have "cte' = cte" by simp
  with s(11) s'(11) e3 show ?thesis by simp
qed

text \<open>
  Claim C6. The rebalancer has no effect on the test matrix. When the driver returns,
  every column of the test matrix has one entry per row of the test input, its last
  column holds the codes of the test targets in their order, and the driver run with any
  other rebalancer and any other generator returns, if it returns, the same test matrix.
\<close>


theorem rebalancer_leaves_test:
  assumes "initiate_data_transformation L g p q = Inr (train_arr, test_arr, path)"
    and "read_csv L q = Inr test_df" and "c \<in> set test_df" and "label c = target_column_name"
  shows "(\<forall>col\<in>set (columns_of test_arr). length col = length (cells c)) \<and>
         (\<exists>classes. last (columns_of test_arr) = class_codes classes (cells c)) \<and>
         (\<forall>s rs g' train_arr' test_arr' path'.
            initiate_data_transformation (L\<lparr>SMOTETomek_fit_resample := s, RandomState := rs\<rparr>)
                g' p q = Inr (train_arr', test_arr', path') \<longrightarrow>
            test_arr' = test_arr)"
proof -
  from assms(1) have st: "transformation_steps L g p q = Inr (train_arr, test_arr, path)"
    by (simp add: initiate_Inr)
  from target_facts [OF st] assms(2) obtain cte classes where t:
    "getitem test_df target_column_name = [cte]"
    "last (columns_of test_arr) = class_codes classes (cells cte)"
    by auto
  from getitem_single [of c test_df cte] assms(3,4) t(1) have c: "cte = c" by simp
  from st obtain Zte cds where "np_c Zte cds = Inr test_arr" by (rule steps_InrE)
  from np_c_Inr [OF this] have rect: "rectangular (columns_of test_arr)"
    and ne: "columns_of test_arr \<noteq> []" by auto
  from ne have lastmem: "last (columns_of test_arr) \<in> set (columns_of test_arr)" by simp
  have rows: "\<forall>col\<in>set (columns_of test_arr). length col = length (cells c)"
  proof
    fix col assume "col \<in> set (columns_of test_arr)"
    from rectangular_same_length [OF rect this lastmem] t(2) c
    show "length col = length (cells c)" by (simp add: length_class_codes)
  qed
  have indep: "test_arr' = test_arr"
    if "initiate_data_transformation (L\<lparr>SMOTETomek_fit_resample := s, RandomState := rs\<rparr>)
                g' p q = Inr (train_arr', test_arr', path')"
    for s rs g' train_arr' test_arr' path'
  proof -
    from that have "transformation_steps (L\<lparr>SMOTETomek_fit_resample := s, RandomState := rs\<rparr>)
        g' p q = Inr (train_arr', test_arr', path')"
      by (simp add: initiate_Inr)
    from steps_test_arr [OF st this] show ?thesis .
  qed
  from rows t(2) c indep show ?thesis by blast
qed

lemma run_doubling:
  "\<exists>train_arr.
     initiate_data_transformation
       (plain_library\<lparr>SMOTETomek_fit_resample := doubling_rebalancer, RandomState := Suc\<rparr>)
       7 ''train.csv'' ''test.csv'' =
     Inr (train_arr, example_test_arr, ''artifacts/preprocessor.pkl'') \<and>
     last (columns_of train_arr) = [Num 1, Num 0, Num 1, Num 1, Num 0, Num 1]"
  by (simp add: run_defs doubling_rebalancer_def)

theorem rebalancer_leaves_test_witness:
  "initiate_data_transformation plain_library 0 ''train.csv'' ''test.csv'' =
     Inr (example_train_arr, example_test_arr, ''artifacts/preprocessor.pkl'') \<and>
   read_csv plain_library ''test.csv'' = Inr test_table \<and>
   map length (columns_of example_test_arr) = [2, 2, 2, 2, 2, 2, 2] \<and>
   (\<exists>train_arr test_arr path.
      initiate_data_transformation
        (plain_library\<lparr>SMOTETomek_fit_resample := doubling_rebalancer, RandomState := Suc\<rparr>)
        7 ''train.csv'' ''test.csv'' = Inr (train_arr, test_arr, path) \<and>
      train_arr \<noteq> example_train_arr \<and> test_arr = example_test_arr)"
proof -
  let ?cte = "Column (Name ''Failure Type'') DObject [Str ''No Failure'', Str ''No Failure'']"
  have r2: "read_csv plain_library ''test.csv'' = Inr test_table"
    by (simp add: plain_library_def example_files_def)
  have m: "?cte \<in> set test_table" "label ?cte = target_column_name"
    by (simp_all add: test_table_def target_column_name_def)
  note t = rebalancer_leaves_test [OF run_example r2 m]
  from t have "\<forall>col\<in>set (columns_of example_test_arr). length col = 2" by simp
  then have rows: "map length (columns_of example_test_arr) = [2, 2, 2, 2, 2, 2, 2]"
    by (simp add: example_test_arr_def)
  from run_doubling obtain train_arr test_arr path where d:
    "initiate_data_transformation
        (plain_library\<lparr>SMOTETomek_fit_resample := doubling_rebalancer, RandomState := Suc\<rparr>)
        7 ''train.csv'' ''test.csv'' = Inr (train_arr, test_arr, path)"
    "last (columns_of train_arr) = [Num 1, Num 0, Num 1, Num 1, Num 0, Num 1]"
    by blast
  from t d(1) have same: "test_arr = example_test_arr" by blast
  from d(2) have "train_arr \<noteq> example_train_arr" by (auto simp: example_train_arr_def)
  with d(1) same rows run_example r2 show ?thesis by blast
qed

text \<open>
  Claim C7. The rebalancer is run with the generator seeded with 42, never with the
  global generator, so the outcome of the driver does not depend on the state of the
  global generator: with the same library and the same two files, two runs give the same
  result, whatever that state is at each run.
\<close>


theorem driver_deterministic:
  "initiate_data_transformation L g p q = initiate_data_transformation L g' p q"
  by (simp add: initiate_data_transformation_def transformation_steps_def check_random_state_def)

end
